theory Spec2Isabelle
  imports Complex_Main
begin

section \<open>Python values\<close>

text \<open>
  The scanner passes dynamically typed values around: the parsed URI (\<open>config\<close>), the
  parameter overrides and the generated xray document are all dicts of strings, integers,
  booleans, lists and nested dicts. One datatype covers them. A dict is an association list
  in insertion order with distinct keys, as Python iterates it.
\<close>

datatype pyval =
    PNone
  | PBool bool
  | PInt int
  | PStr string
  | PList "pyval list"
  | PDict "(string \<times> pyval) list"

type_synonym pydict = "(string \<times> pyval) list"

datatype py_error =
    KeyError string
  | ValueError string
  | AttributeError string

text \<open>Truthiness, as \<open>if x:\<close> and \<open>x or y\<close> test it.\<close>

fun truthy :: "pyval \<Rightarrow> bool" where
  "truthy PNone = False"
| "truthy (PBool b) = b"
| "truthy (PInt i) = (i \<noteq> 0)"
| "truthy (PStr s) = (s \<noteq> [])"
| "truthy (PList xs) = (xs \<noteq> [])"
| "truthy (PDict kvs) = (kvs \<noteq> [])"

definition py_or :: "pyval \<Rightarrow> pyval \<Rightarrow> pyval" where
  "py_or a b = (if truthy a then a else b)"

subsection \<open>Dict operations\<close>

text \<open>\<open>d.get(k, default)\<close>, \<open>d.get(k)\<close>, \<open>k in d\<close>, \<open>d[k]\<close> and \<open>d[k] = v\<close>.\<close>

definition getd :: "pydict \<Rightarrow> string \<Rightarrow> pyval \<Rightarrow> pyval" where
  "getd d k dflt = (case map_of d k of None \<Rightarrow> dflt | Some v \<Rightarrow> v)"

definition get :: "pydict \<Rightarrow> string \<Rightarrow> pyval" where
  "get d k = getd d k PNone"

definition contains :: "pydict \<Rightarrow> string \<Rightarrow> bool" where
  "contains d k = (map_of d k \<noteq> None)"

definition getitem :: "pydict \<Rightarrow> string \<Rightarrow> py_error + pyval" where
  "getitem d k = (case map_of d k of None \<Rightarrow> Inl (KeyError k) | Some v \<Rightarrow> Inr v)"

text \<open>Assignment keeps the position of a key that is already there and appends a new one.\<close>

fun setitem :: "'k \<Rightarrow> 'v \<Rightarrow> ('k \<times> 'v) list \<Rightarrow> ('k \<times> 'v) list" where
  "setitem k v [] = [(k, v)]"
| "setitem k v ((k', v') # d) = (if k' = k then (k, v) # d else (k', v') # setitem k v d)"

text \<open>\<open>d.update(other)\<close>: the items of \<open>other\<close> are assigned in their order.\<close>

fun dict_update :: "pydict \<Rightarrow> pydict \<Rightarrow> pydict" where
  "dict_update d [] = d"
| "dict_update d ((k, v) # other) = dict_update (setitem k v d) other"

text \<open>Sequencing of steps that may raise.\<close>

definition bind :: "py_error + 'a \<Rightarrow> ('a \<Rightarrow> py_error + 'b) \<Rightarrow> py_error + 'b" where
  "bind m f = (case m of Inl e \<Rightarrow> Inl e | Inr x \<Rightarrow> f x)"

subsection \<open>Strings\<close>

fun join :: "string \<Rightarrow> string list \<Rightarrow> string" where
  "join sep [] = []"
| "join sep [x] = x"
| "join sep (x # y # ys) = x @ sep @ join sep (y # ys)"

text \<open>\<open>s.split(c)\<close> for a one-character separator: always at least one piece.\<close>

fun split_on :: "char \<Rightarrow> string \<Rightarrow> string list" where
  "split_on c [] = [[]]"
| "split_on c (x # xs) =
     (if x = c then [] # split_on c xs
      else (case split_on c xs of [] \<Rightarrow> [[x]] | w # ws \<Rightarrow> (x # w) # ws))"

fun digit_char :: "nat \<Rightarrow> char" where
  "digit_char n = ''0123456789'' ! n"

function str_nat :: "nat \<Rightarrow> string" where
  "str_nat n = (if n < 10 then [digit_char n] else str_nat (n div 10) @ [digit_char (n mod 10)])"
  by pat_completeness auto
termination
  by (relation "measure id") auto

declare str_nat.simps [simp del]

definition str_int :: "int \<Rightarrow> string" where
  "str_int i = (if i < 0 then CHR ''-'' # str_nat (nat (- i)) else str_nat (nat i))"

text \<open>
  \<open>repr(x)\<close> and \<open>str(x)\<close>, which an f-string applies to a value. A string is quoted
  with single quotes, which is what Python prints for every string that holds no quote,
  backslash or control character (all strings of the parameter space are of that kind).
\<close>

definition quote :: "string \<Rightarrow> string" where
  "quote s = CHR 0x27 # s @ [CHR 0x27]"

fun py_repr :: "pyval \<Rightarrow> string" where
  "py_repr PNone = ''None''"
| "py_repr (PBool b) = (if b then ''True'' else ''False'')"
| "py_repr (PInt i) = str_int i"
| "py_repr (PStr s) = quote s"
| "py_repr (PList xs) = ''['' @ join '', '' (map py_repr xs) @ '']''"
| "py_repr (PDict kvs) =
     ''{'' @ join '', '' (map (\<lambda>(k, v). quote k @ '': '' @ py_repr v) kvs) @ ''}''"

definition py_str :: "pyval \<Rightarrow> string" where
  "py_str x = (case x of PStr s \<Rightarrow> s | _ \<Rightarrow> py_repr x)"

section \<open>Parameter space and override generation (config\_generator.py)\<close>

definition PARAM_SPACE :: "(string \<times> pyval list) list" where
  "PARAM_SPACE = [
     (''fragment_length'',
        map PStr [''1-1'', ''10-20'', ''50-100'', ''100-200'', ''200-400'', ''517-517'']),
     (''fragment_interval'', map PStr [''1-1'', ''2-5'', ''5-10'', ''10-20'', ''20-50'']),
     (''fragment_packets'', map PStr [''tlshello'', ''1-2'', ''1-3'', ''1-5'']),
     (''fingerprint'',
        map PStr [''chrome'', ''firefox'', ''safari'', ''edge'', ''qq'', ''random'', ''ios'',
                  ''android'']),
     (''alpn'',
        [PList [PStr ''h2''], PList [PStr ''http/1.1''], PList [PStr ''h2'', PStr ''http/1.1'']]),
     (''ech_enabled'', [PBool True, PBool False]),
     (''ech_dns'', [PBool True, PBool False]),
     (''tcp_no_delay'', [PBool True, PBool False]),
     (''tcp_fast_open'', [PBool True, PBool False]),
     (''mptcp'', [PBool True, PBool False]),
     (''tcp_keep_alive'', map PInt [0, 15, 30, 60]),
     (''domain_strategy'', map PStr [''AsIs'', ''UseIP'', ''UseIPv4'']),
     (''transport'', map PStr [''ws'', ''xhttp'', ''tcp'', ''grpc'', ''h2'']),
     (''xhttp_mode'', map PStr [''auto'', ''packet-up'', ''stream-up''])]"

definition PARAM_GROUPS :: "(string \<times> string list) list" where
  "PARAM_GROUPS = [
     (''fragment_length'', [''fragment_length'']),
     (''fragment_interval'', [''fragment_interval'']),
     (''fragment_packets'', [''fragment_packets'']),
     (''fingerprint'', [''fingerprint'']),
     (''alpn'', [''alpn'']),
     (''ech'', [''ech_enabled'', ''ech_dns'']),
     (''socket_options'',
        [''tcp_no_delay'', ''tcp_fast_open'', ''mptcp'', ''tcp_keep_alive'', ''domain_strategy'']),
     (''transport'', [''transport'', ''xhttp_mode''])]"

definition QUICK_PARAMS :: "string list" where
  "QUICK_PARAMS =
     [''fragment_length'', ''fragment_interval'', ''fragment_packets'', ''fingerprint'', ''alpn'']"

text \<open>\<open>PARAM_GROUPS.get(group_name, [group_name])\<close>\<close>

definition group_keys :: "string \<Rightarrow> string list" where
  "group_keys group_name =
     (case map_of PARAM_GROUPS group_name of None \<Rightarrow> [group_name] | Some keys \<Rightarrow> keys)"

text \<open>A test case is the pair of an override dict and its description.\<close>

type_synonym test_case = "pydict \<times> string"

subsection \<open>generate\_smart\_grid\<close>

text \<open>
  The three nested loops of \<open>generate_smart_grid\<close>, innermost first; each takes the list
  \<open>tests\<close> built so far and appends to it. A key that is not in \<open>PARAM_SPACE\<close> is
  skipped (\<open>continue\<close>).
\<close>

fun sweep_values :: "string \<Rightarrow> pyval list \<Rightarrow> test_case list \<Rightarrow> test_case list" where
  "sweep_values key [] tests = tests"
| "sweep_values key (v # values) tests =
     sweep_values key values (tests @ [([(key, v)], key @ ''='' @ py_str v)])"

fun sweep_keys :: "string list \<Rightarrow> test_case list \<Rightarrow> test_case list" where
  "sweep_keys [] tests = tests"
| "sweep_keys (key # keys) tests =
     sweep_keys keys
       (case map_of PARAM_SPACE key of
          None \<Rightarrow> tests
        | Some values \<Rightarrow> sweep_values key values tests)"

fun sweep_groups :: "string list \<Rightarrow> test_case list \<Rightarrow> test_case list" where
  "sweep_groups [] tests = tests"
| "sweep_groups (group_name # param_groups) tests =
     sweep_groups param_groups (sweep_keys (group_keys group_name) tests)"

definition generate_smart_grid :: "pydict \<Rightarrow> string list \<Rightarrow> test_case list" where
  "generate_smart_grid config param_groups =
     sweep_groups param_groups [([], ''baseline (no changes)'')]"

definition generate_quick_grid :: "pydict \<Rightarrow> test_case list" where
  "generate_quick_grid config = generate_smart_grid config QUICK_PARAMS"

subsection \<open>generate\_combination\_grid\<close>

text \<open>\<open>xs[:n]\<close>: a negative \<open>n\<close> counts from the end.\<close>

definition py_take :: "int \<Rightarrow> 'a list \<Rightarrow> 'a list" where
  "py_take n xs = (if 0 \<le> n then take (nat n) xs else take (length xs - nat (- n)) xs)"

type_synonym winners = "(string \<times> (pydict \<times> int) list) list"

text \<open>The first loop: \<open>dimension_tops[group] = [r[0] for r in results[:top_n]]\<close>.\<close>

fun collect_tops ::
  "winners \<Rightarrow> int \<Rightarrow> (string \<times> pydict list) list \<Rightarrow> (string \<times> pydict list) list" where
  "collect_tops [] top_n dimension_tops = dimension_tops"
| "collect_tops ((group_name, results) # rest) top_n dimension_tops =
     collect_tops rest top_n
       (setitem group_name (map fst (py_take top_n results)) dimension_tops)"

text \<open>The loop over one combination: the merged overrides and the description parts.\<close>

fun merge_combo :: "pydict list \<Rightarrow> pydict \<Rightarrow> string list \<Rightarrow> pydict \<times> string list" where
  "merge_combo [] merged desc_parts = (merged, desc_parts)"
| "merge_combo (dim_overrides # combo) merged desc_parts =
     merge_combo combo (dict_update merged dim_overrides)
       (desc_parts @ map (\<lambda>(k, v). k @ ''='' @ py_str v) dim_overrides)"

text \<open>
  \<open>itertools.product\<close> enumerates with the last list varying fastest, as
  \<open>product_lists\<close> does. The keys of \<open>dimension_tops\<close> are distinct, so the lists
  \<open>dimension_tops[d]\<close> for \<open>d\<close> in its keys are its values in order.
\<close>

definition generate_combination_grid :: "winners \<Rightarrow> int \<Rightarrow> test_case list" where
  "generate_combination_grid winners top_n =
     (let dimension_tops = collect_tops winners top_n [] in
      if dimension_tops = [] then []
      else
        let value_lists = map snd dimension_tops in
        map (\<lambda>combo. case merge_combo combo [] [] of
                        (merged, desc_parts) \<Rightarrow> (merged, join '' + '' desc_parts))
            (product_lists value_lists))"

section \<open>The configuration builder (config\_generator.py)\<close>

subsection \<open>Socket options\<close>

text \<open>One of the five \<open>if key in overrides: sockopt[name] = overrides[key]\<close> statements.\<close>

definition tcp_option :: "string \<Rightarrow> string \<Rightarrow> pydict \<Rightarrow> pydict \<Rightarrow> pydict" where
  "tcp_option key name overrides sockopt =
     (if contains overrides key then setitem name (get overrides key) sockopt else sockopt)"

text \<open>
  The fragment block. \<open>cfg\<close> is \<open>config or {}\<close>: the shadowsocks builder calls
  \<open>_apply_sockopt\<close> without the third argument, so \<open>config\<close> is \<open>None\<close> there.
\<close>

definition fragment_option :: "pydict \<Rightarrow> pydict \<Rightarrow> pydict \<Rightarrow> pydict" where
  "fragment_option overrides cfg sockopt =
     (let frag_len = getd overrides ''fragment_length'' (get cfg ''fragment_length'');
          frag_int = getd overrides ''fragment_interval'' (get cfg ''fragment_interval'');
          frag_pkt = getd overrides ''fragment_packets'' (get cfg ''fragment_packets'')
      in if truthy frag_len \<or> truthy frag_int \<or> truthy frag_pkt
         then setitem ''fragment''
                (PDict [(''packets'', py_or frag_pkt (PStr ''tlshello'')),
                        (''length'', py_or frag_len (PStr ''100-200'')),
                        (''interval'', py_or frag_int (PStr ''10-20''))])
                sockopt
         else sockopt)"

definition build_sockopt :: "pydict \<Rightarrow> pydict \<Rightarrow> pydict" where
  "build_sockopt overrides cfg =
     tcp_option ''domain_strategy'' ''domainStrategy'' overrides
       (tcp_option ''tcp_keep_alive'' ''tcpKeepAliveInterval'' overrides
         (tcp_option ''mptcp'' ''tcpMptcp'' overrides
           (tcp_option ''tcp_fast_open'' ''tcpFastOpen'' overrides
             (tcp_option ''tcp_no_delay'' ''tcpNoDelay'' overrides
               (fragment_option overrides cfg [])))))"

definition apply_sockopt :: "pydict \<Rightarrow> pydict \<Rightarrow> pydict option \<Rightarrow> pydict" where
  "apply_sockopt stream overrides config =
     (let cfg = (case config of None \<Rightarrow> [] | Some c \<Rightarrow> c);
          sockopt = build_sockopt overrides cfg
      in if sockopt \<noteq> [] then setitem ''sockopt'' (PDict sockopt) stream else stream)"

subsection \<open>Stream settings\<close>

text \<open>The transport block of \<open>_build_stream_settings\<close>.\<close>

definition transport_settings :: "pydict \<Rightarrow> pydict \<Rightarrow> pyval \<Rightarrow> pydict \<Rightarrow> pydict" where
  "transport_settings config overrides transport stream =
     (if transport = PStr ''ws'' then
        let ws_settings = [(''path'', getd config ''path'' (PStr ''/'')), (''headers'', PDict [])];
            ws_settings' =
              (if truthy (get config ''host'')
               then setitem ''headers'' (PDict [(''Host'', get config ''host'')]) ws_settings
               else ws_settings)
        in setitem ''wsSettings'' (PDict ws_settings') stream
      else if transport = PStr ''grpc'' then
        setitem ''grpcSettings'' (PDict [(''serviceName'', getd config ''path'' (PStr []))]) stream
      else if transport = PStr ''h2'' then
        let h2_settings = [(''path'', getd config ''path'' (PStr ''/''))];
            h2_settings' =
              (if truthy (get config ''host'')
               then setitem ''host'' (PList [get config ''host'']) h2_settings
               else h2_settings)
        in setitem ''httpSettings'' (PDict h2_settings') stream
      else if transport = PStr ''xhttp'' then
        let xhttp_settings = [(''path'', getd config ''path'' (PStr ''/''))];
            xhttp_settings' =
              (if truthy (get config ''host'')
               then setitem ''host'' (get config ''host'') xhttp_settings
               else xhttp_settings);
            xhttp_mode = get overrides ''xhttp_mode'';
            xhttp_settings'' =
              (if truthy xhttp_mode then setitem ''mode'' xhttp_mode xhttp_settings'
               else xhttp_settings')
        in setitem ''xhttpSettings'' (PDict xhttp_settings'') stream
      else stream)"

text \<open>
  The ALPN list of the TLS block: the override unless it is \<open>None\<close>, else the
  comma-separated string of the config. \<open>alpn_str.split\<close> exists on strings only.
\<close>

definition tls_alpn :: "pydict \<Rightarrow> pydict \<Rightarrow> py_error + pyval" where
  "tls_alpn config overrides =
     (let alpn = get overrides ''alpn'' in
      if alpn = PNone then
        let alpn_str = getd config ''alpn'' (PStr []) in
        if truthy alpn_str then
          (case alpn_str of
             PStr s \<Rightarrow> Inr (PList (map PStr (split_on CHR '','' s)))
           | _ \<Rightarrow> Inl (AttributeError ''split''))
        else Inr (PList [])
      else Inr alpn)"

text \<open>The ECH block is written only when \<open>overrides.get("ech_enabled")\<close> is truthy.\<close>

definition ech_option :: "pydict \<Rightarrow> pydict \<Rightarrow> pydict" where
  "ech_option overrides tls_settings =
     (if truthy (get overrides ''ech_enabled'')
      then setitem ''ech''
             (PDict [(''enabled'', PBool True),
                     (''dnsQuery'', getd overrides ''ech_dns'' (PBool False))])
             tls_settings
      else tls_settings)"

text \<open>\<open>if v: d[name] = v\<close>\<close>

definition truthy_option :: "string \<Rightarrow> pyval \<Rightarrow> pydict \<Rightarrow> pydict" where
  "truthy_option name v d = (if truthy v then setitem name v d else d)"

text \<open>The TLS / REALITY block of \<open>_build_stream_settings\<close>.\<close>

definition security_settings ::
  "pydict \<Rightarrow> pydict \<Rightarrow> pyval \<Rightarrow> pydict \<Rightarrow> py_error + pydict" where
  "security_settings config overrides security stream =
     (if security = PStr ''reality'' then
        let fp = getd overrides ''fingerprint'' (getd config ''fingerprint'' (PStr ''chrome''))
        in Inr (setitem ''realitySettings''
                  (PDict [(''serverName'', getd config ''sni'' (PStr [])),
                          (''fingerprint'', fp),
                          (''publicKey'', getd config ''public_key'' (PStr [])),
                          (''shortId'', getd config ''short_id'' (PStr []))])
                  (setitem ''security'' (PStr ''reality'') stream))
      else if security = PStr ''tls'' then
        let fp = getd overrides ''fingerprint'' (getd config ''fingerprint'' (PStr []))
        in bind (tls_alpn config overrides) (\<lambda>alpn.
           bind (getitem config ''address'') (\<lambda>address.
             let tls_settings =
                   ech_option overrides
                     (truthy_option ''alpn'' alpn
                       (truthy_option ''fingerprint'' fp
                         [(''serverName'', getd config ''sni'' address)]))
             in Inr (setitem ''tlsSettings'' (PDict tls_settings)
                       (setitem ''security'' (PStr ''tls'') stream))))
      else Inr (setitem ''security'' (PStr ''none'') stream))"

text \<open>\<open>stream["tlsSettings"]["allowInsecure"] = True\<close>, when the config asks for it.\<close>

definition allow_insecure :: "pydict \<Rightarrow> pydict \<Rightarrow> pydict" where
  "allow_insecure config stream =
     (if truthy (get config ''allow_insecure'') \<and> contains stream ''tlsSettings''
      then (case get stream ''tlsSettings'' of
              PDict tls \<Rightarrow>
                setitem ''tlsSettings'' (PDict (setitem ''allowInsecure'' (PBool True) tls)) stream
            | _ \<Rightarrow> stream)
      else stream)"

definition build_stream_settings ::
  "pydict \<Rightarrow> pydict \<Rightarrow> pyval \<Rightarrow> pyval \<Rightarrow> py_error + pydict" where
  "build_stream_settings config overrides security transport =
     bind (security_settings config overrides security
             (transport_settings config overrides transport [(''network'', transport)]))
       (\<lambda>stream. Inr (allow_insecure config (apply_sockopt stream overrides (Some config))))"

subsection \<open>Outbounds\<close>

definition outbound :: "string \<Rightarrow> pydict \<Rightarrow> pydict \<Rightarrow> pydict" where
  "outbound protocol settings stream =
     [(''tag'', PStr ''proxy''), (''protocol'', PStr protocol),
      (''settings'', PDict settings), (''streamSettings'', PDict stream)]"

definition build_vless_outbound :: "pydict \<Rightarrow> pydict \<Rightarrow> py_error + pydict" where
  "build_vless_outbound config overrides =
     (let security = getd config ''security'' (PStr ''tls'');
          transport = getd overrides ''transport'' (getd config ''transport'' (PStr ''tcp''))
      in bind (getitem config ''address'') (\<lambda>address.
         bind (getitem config ''port'') (\<lambda>port.
         bind (getitem config ''uuid'') (\<lambda>uuid.
           let user = [(''id'', uuid), (''encryption'', PStr ''none'')];
               user' =
                 (if security = PStr ''reality''
                  then setitem ''flow'' (getd config ''flow'' (PStr ''xtls-rprx-vision'')) user
                  else user);
               vnext = [(''address'', address), (''port'', port), (''users'', PList [PDict user'])]
           in bind (build_stream_settings config overrides security transport) (\<lambda>stream.
                Inr (outbound ''vless'' [(''vnext'', PList [PDict vnext])] stream))))))"

definition build_vmess_outbound :: "pydict \<Rightarrow> pydict \<Rightarrow> py_error + pydict" where
  "build_vmess_outbound config overrides =
     (let transport = getd overrides ''transport'' (getd config ''transport'' (PStr ''ws''));
          tls_type = getd config ''tls'' (PStr ''tls'');
          security_type = (if tls_type = PStr ''tls'' then PStr ''tls'' else PStr ''none'')
      in bind (getitem config ''address'') (\<lambda>address.
         bind (getitem config ''port'') (\<lambda>port.
         bind (getitem config ''uuid'') (\<lambda>uuid.
           let user = [(''id'', uuid), (''alterId'', getd config ''alter_id'' (PInt 0)),
                       (''security'', getd config ''security'' (PStr ''auto''))];
               vnext = [(''address'', address), (''port'', port), (''users'', PList [PDict user])]
           in bind (build_stream_settings config overrides security_type transport) (\<lambda>stream.
                Inr (outbound ''vmess'' [(''vnext'', PList [PDict vnext])] stream))))))"

definition build_trojan_outbound :: "pydict \<Rightarrow> pydict \<Rightarrow> py_error + pydict" where
  "build_trojan_outbound config overrides =
     (let transport = getd overrides ''transport'' (getd config ''transport'' (PStr ''tcp''));
          tls_type = getd config ''tls'' (PStr ''tls'');
          security_type = (if tls_type = PStr ''tls'' then PStr ''tls'' else PStr ''none'')
      in bind (getitem config ''address'') (\<lambda>address.
         bind (getitem config ''port'') (\<lambda>port.
         bind (getitem config ''password'') (\<lambda>password.
           let server = [(''address'', address), (''port'', port), (''password'', password)]
           in bind (build_stream_settings config overrides security_type transport) (\<lambda>stream.
                Inr (outbound ''trojan'' [(''servers'', PList [PDict server])] stream))))))"

definition build_shadowsocks_outbound :: "pydict \<Rightarrow> pydict \<Rightarrow> py_error + pydict" where
  "build_shadowsocks_outbound config overrides =
     bind (getitem config ''address'') (\<lambda>address.
     bind (getitem config ''port'') (\<lambda>port.
     bind (getitem config ''method'') (\<lambda>method.
     bind (getitem config ''password'') (\<lambda>password.
       let server = [(''address'', address), (''port'', port), (''method'', method),
                     (''password'', password)];
           stream = apply_sockopt [(''network'', PStr ''tcp'')] overrides None
       in Inr (outbound ''shadowsocks'' [(''servers'', PList [PDict server])] stream)))))"

subsection \<open>build\_xray\_json\<close>

definition inbound :: "int \<Rightarrow> pydict" where
  "inbound socks_port =
     [(''tag'', PStr ''socks-in''), (''port'', PInt socks_port),
      (''listen'', PStr ''127.0.0.1''), (''protocol'', PStr ''socks''),
      (''settings'', PDict [(''auth'', PStr ''noauth''), (''udp'', PBool True)])]"

definition document :: "int \<Rightarrow> pydict \<Rightarrow> pydict" where
  "document socks_port outb =
     [(''log'', PDict [(''loglevel'', PStr ''warning'')]),
      (''inbounds'', PList [PDict (inbound socks_port)]),
      (''outbounds'', PList [PDict outb])]"

definition build_xray_json :: "pydict \<Rightarrow> pydict \<Rightarrow> int \<Rightarrow> py_error + pydict" where
  "build_xray_json config overrides socks_port =
     bind (getitem config ''protocol'') (\<lambda>protocol.
     bind (if protocol = PStr ''vless'' then build_vless_outbound config overrides
           else if protocol = PStr ''vmess'' then build_vmess_outbound config overrides
           else if protocol = PStr ''trojan'' then build_trojan_outbound config overrides
           else if protocol = PStr ''shadowsocks'' then build_shadowsocks_outbound config overrides
           else Inl (ValueError (''Unsupported protocol: '' @ py_str protocol)))
       (\<lambda>outb. Inr (document socks_port outb)))"

section \<open>The port allocator (tester.py)\<close>

text \<open>
  \<open>_next_port\<close> reads and increments the module-level counter under a lock, so the
  allocations are serialised: the counter is threaded through as explicit state. Python
  integers are unbounded and \<open>%\<close> by a positive number is the floor modulus, as \<open>mod\<close>
  on \<open>int\<close> is.
\<close>

definition BASE_PORT :: int where
  "BASE_PORT = 20000"

definition next_port :: "int \<Rightarrow> int \<times> int" where
  "next_port port_counter = (BASE_PORT + port_counter mod 10000, port_counter + 1)"

text \<open>\<open>n\<close> allocations one after the other: the ports returned and the counter left.\<close>

fun alloc_ports :: "nat \<Rightarrow> int \<Rightarrow> int list \<times> int" where
  "alloc_ports 0 c = ([], c)"
| "alloc_ports (Suc n) c =
     (case next_port c of (p, c') \<Rightarrow>
        (case alloc_ports n c' of (ps, c'') \<Rightarrow> (p # ps, c'')))"

section \<open>The probe runner (tester.py)\<close>

record TestResult =
  params :: pydict
  description :: string
  success :: bool
  latency_ms :: int
  speed_mbps :: real
  error :: string

text \<open>
  What the outside world does during one probe is an input of the model. The exceptions
  are those that the three \<open>except\<close> clauses of \<open>test_single\<close> tell apart; the string is
  \<open>str(e)\<close>. Clock readings and the measured speed are real numbers (the source computes
  them in floating point).
\<close>

datatype exn = TimeoutError | ClientError string | OtherError string

record probe_env =
  spawn :: "exn option"
    \<comment> \<open>an exception raised while starting xray or during the settle delay\<close>
  returncode :: "int option"
    \<comment> \<open>\<open>proc.returncode\<close> after the settle delay; \<open>None\<close> while xray still runs\<close>
  request :: "exn + int"
    \<comment> \<open>the GET of \<open>TEST_URL\<close> through the proxy: an exception, or \<open>resp.status\<close>\<close>
  t_start :: real
  t_end :: real
    \<comment> \<open>\<open>time.monotonic()\<close> before the GET and after the body is read\<close>
  speed_request :: "(nat \<times> real) option"
    \<comment> \<open>the GET of \<open>SPEED_URL\<close>: \<open>None\<close> when it raised, else \<open>len(data)\<close> and the seconds elapsed\<close>
  session_close :: "exn option"
    \<comment> \<open>an exception raised on leaving the client session\<close>

text \<open>\<open>int(x)\<close> truncates towards zero; \<open>round(x, 2)\<close> rounds half to even.\<close>

definition py_int :: "real \<Rightarrow> int" where
  "py_int x = (if 0 \<le> x then \<lfloor>x\<rfloor> else \<lceil>x\<rceil>)"

definition py_round2 :: "real \<Rightarrow> real" where
  "py_round2 x =
     (let y = x * 100; f = \<lfloor>y\<rfloor>; d = y - of_int f
      in of_int (if d < 1 / 2 then f else if 1 / 2 < d then f + 1
                 else if even f then f else f + 1) / 100)"

text \<open>The \<open>except\<close> clauses: each records the reason and falls through to the return.\<close>

fun handle :: "exn \<Rightarrow> TestResult \<Rightarrow> TestResult" where
  "handle TimeoutError result = result\<lparr>error := ''timeout''\<rparr>"
| "handle (ClientError msg) result = result\<lparr>error := msg\<rparr>"
| "handle (OtherError msg) result = result\<lparr>error := msg\<rparr>"

text \<open>Leaving the \<open>async with\<close> block of the client session, normally or by \<open>return\<close>.\<close>

definition close_session :: "probe_env \<Rightarrow> TestResult \<Rightarrow> TestResult" where
  "close_session env result =
     (case session_close env of None \<Rightarrow> result | Some e \<Rightarrow> handle e result)"

text \<open>The optional speed test; its own failure is swallowed.\<close>

definition speed_test :: "bool \<Rightarrow> probe_env \<Rightarrow> TestResult \<Rightarrow> TestResult" where
  "speed_test measure_speed env result =
     (if measure_speed then
        (case speed_request env of
           None \<Rightarrow> result
         | Some (len_data, elapsed) \<Rightarrow>
             if 0 < elapsed
             then result\<lparr>speed_mbps := py_round2 (real (len_data * 8) / (elapsed * 1000000))\<rparr>
             else result)
      else result)"

text \<open>
  The body of \<open>test_single\<close> after the port is allocated. The result starts as
  \<open>TestResult(params, description)\<close> with the defaults of the dataclass. The
  \<open>finally\<close> block only kills the child process and removes the temporary file, and
  swallows the errors of both; it does not touch the result. The search always attaches a
  dict as \<open>_overrides\<close> and a string as \<open>_description\<close>.
\<close>

definition probe :: "pydict \<Rightarrow> bool \<Rightarrow> probe_env \<Rightarrow> TestResult" where
  "probe xray_json measure_speed env =
     (let result = \<lparr>params = (case getd xray_json ''_overrides'' (PDict []) of
                                 PDict d \<Rightarrow> d | _ \<Rightarrow> []),
                      description = (case getd xray_json ''_description'' (PStr []) of
                                       PStr s \<Rightarrow> s | _ \<Rightarrow> []),
                      success = False, latency_ms = - 1, speed_mbps = - 1, error = []\<rparr>
      in case spawn env of
           Some e \<Rightarrow> handle e result
         | None \<Rightarrow>
            (case returncode env of
               Some rc \<Rightarrow> result\<lparr>error := ''xray exited with code '' @ str_int rc\<rparr>
             | None \<Rightarrow>
                (case request env of
                   Inl e \<Rightarrow> handle e result
                 | Inr status \<Rightarrow>
                     if status = 200 \<or> status = 204
                     then close_session env
                            (speed_test measure_speed env
                               (result\<lparr>success := True,
                                       latency_ms := py_int ((t_end env - t_start env) * 1000)\<rparr>))
                     else close_session env
                            (result\<lparr>error := ''HTTP '' @ str_int status\<rparr>))))"

definition test_single :: "pydict \<Rightarrow> bool \<Rightarrow> probe_env \<Rightarrow> int \<Rightarrow> TestResult \<times> int" where
  "test_single xray_json measure_speed env port_counter =
     (case next_port port_counter of (port, port_counter') \<Rightarrow>
        (probe xray_json measure_speed env, port_counter'))"

definition test_base_config :: "pydict \<Rightarrow> probe_env \<Rightarrow> int \<Rightarrow> TestResult \<times> int" where
  "test_base_config xray_json env port_counter = test_single xray_json False env port_counter"

section \<open>The batch executor (tester.py)\<close>

text \<open>
  \<open>run_batch\<close> creates one task per document; each task waits for a permit of the
  semaphore, runs \<open>test_single\<close>, then appends its result, counts it and reports it under
  the lock. The event loop interleaves the tasks, so a run of the batch is a sequence of
  events: task \<open>i\<close> obtains a permit and starts its probe (which allocates its port), or
  task \<open>i\<close> completes its probe and releases the permit. A task is a document together
  with what the world does during its probe.
\<close>

datatype event = Acquire nat | Finish nat

type_synonym task = "pydict \<times> probe_env"

record batch_state =
  sem :: nat
  waiting :: "nat list"
  running :: "nat list"
  results :: "TestResult list"
  completed :: nat
  port_counter :: int
  reported :: "(TestResult \<times> nat \<times> nat) list"

text \<open>\<open>asyncio.Semaphore(value)\<close> raises \<open>ValueError\<close> for a negative value.\<close>

definition start_batch :: "task list \<Rightarrow> int \<Rightarrow> int \<Rightarrow> py_error + batch_state" where
  "start_batch tests concurrency pc =
     (if concurrency < 0 then Inl (ValueError ''Semaphore initial value must be >= 0'')
      else Inr \<lparr>sem = nat concurrency, waiting = [0..<length tests], running = [],
                results = [], completed = 0, port_counter = pc, reported = []\<rparr>)"

fun step :: "task list \<Rightarrow> bool \<Rightarrow> event \<Rightarrow> batch_state \<Rightarrow> batch_state option" where
  "step tests measure_speed (Acquire i) s =
     (if i \<in> set (waiting s) \<and> 0 < sem s
      then Some (s\<lparr>sem := sem s - 1,
                   waiting := removeAll i (waiting s),
                   running := running s @ [i],
                   port_counter := snd (next_port (port_counter s))\<rparr>)
      else None)"
| "step tests measure_speed (Finish i) s =
     (if i \<in> set (running s) \<and> i < length tests
      then let result = probe (fst (tests ! i)) measure_speed (snd (tests ! i))
           in Some (s\<lparr>sem := sem s + 1,
                        running := removeAll i (running s),
                        results := results s @ [result],
                        completed := completed s + 1,
                        reported := reported s @ [(result, completed s + 1, length tests)]\<rparr>)
      else None)"

fun exec :: "task list \<Rightarrow> bool \<Rightarrow> event list \<Rightarrow> batch_state \<Rightarrow> batch_state option" where
  "exec tests measure_speed [] s = Some s"
| "exec tests measure_speed (e # es) s =
     (case step tests measure_speed e s of
        None \<Rightarrow> None
      | Some s' \<Rightarrow> exec tests measure_speed es s')"

text \<open>\<open>asyncio.gather\<close> returns once every task is done.\<close>

definition finished :: "batch_state \<Rightarrow> bool" where
  "finished s = (waiting s = [] \<and> running s = [])"

text \<open>
  \<open>run_batch\<close> under a schedule of events: \<open>None\<close> when the schedule is not a complete
  run of the batch (an event is not enabled, or tasks are left over), else what
  \<open>run_batch\<close> raises or returns, with the port counter it leaves.
\<close>

definition run_batch ::
  "task list \<Rightarrow> int \<Rightarrow> bool \<Rightarrow> event list \<Rightarrow> int
     \<Rightarrow> (py_error + TestResult list \<times> int) option" where
  "run_batch tests concurrency measure_speed schedule pc =
     (case start_batch tests concurrency pc of
        Inl e \<Rightarrow> Some (Inl e)
      | Inr s0 \<Rightarrow>
         (case exec tests measure_speed schedule s0 of
            None \<Rightarrow> None
          | Some s \<Rightarrow> if finished s then Some (Inr (results s, port_counter s)) else None))"

section \<open>Search orchestration (grid\_search.py)\<close>

text \<open>
  What the world does during a search: the behaviour of the network during the baseline
  probe and during the probe of each task of the two batches, and the interleaving of
  each batch.
\<close>

record world =
  base_env :: probe_env
  sweep_env :: "nat \<Rightarrow> probe_env"
  sweep_schedule :: "event list"
  combo_env :: "nat \<Rightarrow> probe_env"
  combo_schedule :: "event list"

text \<open>\<open>xj["_overrides"] = overrides; xj["_description"] = desc\<close>\<close>

definition stamp :: "pydict \<Rightarrow> string \<Rightarrow> pydict \<Rightarrow> pydict" where
  "stamp overrides desc xj =
     setitem ''_description'' (PStr desc) (setitem ''_overrides'' (PDict overrides) xj)"

text \<open>The loops that build \<open>sweep_jsons\<close> and \<open>combo_jsons\<close>.\<close>

fun build_jsons :: "pydict \<Rightarrow> test_case list \<Rightarrow> py_error + pydict list" where
  "build_jsons config [] = Inr []"
| "build_jsons config ((overrides, desc) # cases) =
     bind (build_xray_json config overrides 10808) (\<lambda>xj.
     bind (build_jsons config cases) (\<lambda>jsons.
       Inr (stamp overrides desc xj # jsons)))"

text \<open>\<open>sweep_cases = [(o, d) for o, d in generate_smart_grid(...) if o]\<close>\<close>

definition sweep_cases :: "pydict \<Rightarrow> string list \<Rightarrow> test_case list" where
  "sweep_cases config param_groups =
     filter (\<lambda>(overrides, desc). truthy (PDict overrides))
       (generate_smart_grid config param_groups)"

text \<open>
  Winners of one group: the successful sweep results that touch one of its keys, sorted
  by latency (Python's sort is stable, as \<open>sort_key\<close> is).
\<close>

definition group_results :: "string \<Rightarrow> TestResult list \<Rightarrow> (pydict \<times> int) list" where
  "group_results group_name sweep_results =
     sort_key snd
       (map (\<lambda>r. (params r, latency_ms r))
         (filter (\<lambda>r. success r \<and> list_ex (contains (params r)) (group_keys group_name))
            sweep_results))"

fun identify_winners :: "string list \<Rightarrow> TestResult list \<Rightarrow> winners \<Rightarrow> winners" where
  "identify_winners [] sweep_results winners = winners"
| "identify_winners (group_name # param_groups) sweep_results winners =
     identify_winners param_groups sweep_results
       (if group_results group_name sweep_results \<noteq> []
        then setitem group_name (group_results group_name sweep_results) winners
        else winners)"

definition tasks :: "pydict list \<Rightarrow> (nat \<Rightarrow> probe_env) \<Rightarrow> task list" where
  "tasks jsons env = map (\<lambda>i. (jsons ! i, env i)) [0..<length jsons]"

text \<open>
  Phase 3 of \<open>smart_search\<close>: the combination cases are generated and probed only when
  more than one group has winners. The result is the probe results the phase adds and
  the port counter it leaves.
\<close>

definition combine_phase ::
  "world \<Rightarrow> pydict \<Rightarrow> int \<Rightarrow> bool \<Rightarrow> winners \<Rightarrow> int
     \<Rightarrow> (py_error + TestResult list \<times> int) option" where
  "combine_phase w config concurrency measure_speed winners pc =
     (if 1 < length winners then
        (case build_jsons config (generate_combination_grid winners 3) of
           Inl e \<Rightarrow> Some (Inl e)
         | Inr combo_jsons \<Rightarrow>
             run_batch (tasks combo_jsons (combo_env w)) concurrency measure_speed
               (combo_schedule w) pc)
      else Some (Inr ([], pc)))"

text \<open>
  \<open>smart_search\<close>, from the port counter \<open>pc\<close> it finds. The result is \<open>None\<close> when a
  batch does not complete under the world's schedule, an error when a step raises, or the
  list of all results; the second component is the port counter after the last probe that
  was started before an error, or else at the end.
\<close>

definition smart_search ::
  "world \<Rightarrow> pydict \<Rightarrow> string list \<Rightarrow> int \<Rightarrow> bool \<Rightarrow> int
     \<Rightarrow> (py_error + TestResult list) option \<times> int" where
  "smart_search w config param_groups concurrency measure_speed pc =
     (case build_xray_json config [] 10808 of
        Inl e \<Rightarrow> (Some (Inl e), pc)
      | Inr xj \<Rightarrow>
         (case test_base_config (stamp [] ''baseline (no changes)'' xj) (base_env w) pc of
            (base_result, pc1) \<Rightarrow>
              (case build_jsons config (sweep_cases config param_groups) of
                 Inl e \<Rightarrow> (Some (Inl e), pc1)
               | Inr sweep_jsons \<Rightarrow>
                  (case run_batch (tasks sweep_jsons (sweep_env w)) concurrency measure_speed
                          (sweep_schedule w) pc1 of
                     None \<Rightarrow> (None, pc1)
                   | Some (Inl e) \<Rightarrow> (Some (Inl e), pc1)
                   | Some (Inr (sweep_results, pc2)) \<Rightarrow>
                      (case combine_phase w config concurrency measure_speed
                              (identify_winners param_groups sweep_results []) pc2 of
                         None \<Rightarrow> (None, pc2)
                       | Some (Inl e) \<Rightarrow> (Some (Inl e), pc2)
                       | Some (Inr (combo_results, pc3)) \<Rightarrow>
                           (Some (Inr ([base_result] @ sweep_results @ combo_results)),
                            pc3))))))"

text \<open>\<open>quick_search\<close> passes its own list of group names to \<open>smart_search\<close>.\<close>

definition quick_groups :: "string list" where
  "quick_groups = [''fragment'', ''fingerprint'', ''alpn'']"

definition quick_search ::
  "world \<Rightarrow> pydict \<Rightarrow> int \<Rightarrow> bool \<Rightarrow> int \<Rightarrow> (py_error + TestResult list) option \<times> int" where
  "quick_search w config concurrency measure_speed pc =
     smart_search w config quick_groups concurrency measure_speed pc"

section \<open>Reference definitions for the properties\<close>

text \<open>
  The sweep as the specification words it: for each requested group, for each member
  dimension of the group, one singleton override set per value of the dimension's
  domain. A name that is no dimension has the empty domain.
\<close>

definition value_domain :: "string \<Rightarrow> pyval list" where
  "value_domain key = (case map_of PARAM_SPACE key of None \<Rightarrow> [] | Some vs \<Rightarrow> vs)"

definition singleton_case :: "string \<Rightarrow> pyval \<Rightarrow> test_case" where
  "singleton_case key v = ([(key, v)], key @ ''='' @ py_str v)"

definition spec_sweep :: "string list \<Rightarrow> test_case list" where
  "spec_sweep param_groups =
     concat (map (\<lambda>g. concat (map (\<lambda>k. map (singleton_case k) (value_domain k))
                                  (group_keys g)))
                 param_groups)"

text \<open>Base configurations as \<open>parse_uri\<close> returns them, one per protocol.\<close>

definition example_vless :: pydict where
  "example_vless =
     [(''protocol'', PStr ''vless''), (''uuid'', PStr ''b831381d''),
      (''address'', PStr ''cdn.example.org''), (''port'', PInt 443), (''name'', PStr ''demo''),
      (''security'', PStr ''tls''), (''sni'', PStr ''cdn.example.org''),
      (''host'', PStr ''cdn.example.org''), (''path'', PStr ''/ws''),
      (''transport'', PStr ''ws''), (''fingerprint'', PStr []),
      (''alpn'', PStr ''h2,http/1.1''), (''allow_insecure'', PBool False)]"


definition example_shadowsocks :: pydict where
  "example_shadowsocks =
     [(''protocol'', PStr ''shadowsocks''), (''method'', PStr ''aes-256-gcm''),
      (''password'', PStr ''secret''), (''address'', PStr ''s.example.org''),
      (''port'', PInt 8388), (''name'', PStr ''demo'')]"


text \<open>
  A base configuration is well formed when it carries the fields that the builder of its
  protocol variant reads unconditionally and its \<open>alpn\<close>, if any, is a string, as in every
  dict that \<open>parse_uri\<close> returns.
\<close>

definition recognized :: "pyval \<Rightarrow> bool" where
  "recognized p =
     (p = PStr ''vless'' \<or> p = PStr ''vmess'' \<or> p = PStr ''trojan'' \<or> p = PStr ''shadowsocks'')"




text \<open>A probe that is answered with status 204 after 50 ms.\<close>

definition env_ok :: probe_env where
  "env_ok = \<lparr>spawn = None, returncode = None, request = Inr 204, t_start = 10,
              t_end = 10.05, speed_request = None, session_close = None\<rparr>"



subsection \<open>Fields of a document\<close>

text \<open>
  A field of a document is addressed by a path of dict keys and list indices.
  \<open>streamSettings\<close> of the only outbound is where every override lands.
\<close>

datatype seg = K string | I nat

fun lookup :: "seg list \<Rightarrow> pyval \<Rightarrow> pyval option" where
  "lookup [] v = Some v"
| "lookup (K k # p) (PDict d) = (case map_of d k of None \<Rightarrow> None | Some v \<Rightarrow> lookup p v)"
| "lookup (I i # p) (PList xs) = (if i < length xs then lookup p (xs ! i) else None)"
| "lookup (s # p) v = None"

definition doc_lookup :: "seg list \<Rightarrow> py_error + pydict \<Rightarrow> pyval option" where
  "doc_lookup path r = (case r of Inl e \<Rightarrow> None | Inr d \<Rightarrow> lookup path (PDict d))"

definition stream_path :: "seg list" where
  "stream_path = [K ''outbounds'', I 0, K ''streamSettings'']"

text \<open>
  \<open>del_path p d\<close> removes the field at the path of keys \<open>p\<close> from the dict \<open>d\<close>, if it
  is there; \<open>prune_empty k d\<close> removes the field \<open>k\<close> when it is an empty dict (the
  builder writes \<open>sockopt\<close> only when it is not empty).
\<close>

fun del_path :: "string list \<Rightarrow> pydict \<Rightarrow> pydict" where
  "del_path [] d = d"
| "del_path [k] d = filter (\<lambda>(key, v). key \<noteq> k) d"
| "del_path (k # k' # p) d =
     map (\<lambda>(key, v).
            (key, if key = k
                  then (case v of PDict inner \<Rightarrow> PDict (del_path (k' # p) inner) | _ \<Rightarrow> v)
                  else v)) d"

definition prune_empty :: "string \<Rightarrow> pydict \<Rightarrow> pydict" where
  "prune_empty k d = filter (\<lambda>(key, v). \<not> (key = k \<and> v = PDict [])) d"

text \<open>
  The part of \<open>streamSettings\<close> that an override key governs: the whole fragment block
  for each of the three fragment keys (the builder fills the two other members in), the
  network and the transport-specific settings for \<open>transport\<close>, and one field for every
  other key.
\<close>

definition governed :: "string \<Rightarrow> string list list" where
  "governed key =
     (if key = ''fragment_length'' \<or> key = ''fragment_interval'' \<or> key = ''fragment_packets''
      then [[''sockopt'', ''fragment'']]
      else if key = ''tcp_no_delay'' then [[''sockopt'', ''tcpNoDelay'']]
      else if key = ''tcp_fast_open'' then [[''sockopt'', ''tcpFastOpen'']]
      else if key = ''mptcp'' then [[''sockopt'', ''tcpMptcp'']]
      else if key = ''tcp_keep_alive'' then [[''sockopt'', ''tcpKeepAliveInterval'']]
      else if key = ''domain_strategy'' then [[''sockopt'', ''domainStrategy'']]
      else if key = ''fingerprint''
      then [[''tlsSettings'', ''fingerprint''], [''realitySettings'', ''fingerprint'']]
      else if key = ''alpn'' then [[''tlsSettings'', ''alpn'']]
      else if key = ''ech_enabled'' then [[''tlsSettings'', ''ech'']]
      else if key = ''ech_dns'' then [[''tlsSettings'', ''ech'', ''dnsQuery'']]
      else if key = ''transport''
      then [[''network''], [''wsSettings''], [''grpcSettings''], [''httpSettings''],
            [''xhttpSettings'']]
      else if key = ''xhttp_mode'' then [[''xhttpSettings'', ''mode'']]
      else [])"

text \<open>\<open>streamSettings\<close> without the part that \<open>key\<close> governs.\<close>

definition erase_governed :: "string \<Rightarrow> pydict \<Rightarrow> pydict" where
  "erase_governed key stream = prune_empty ''sockopt'' (fold del_path (governed key) stream)"

definition param_keys :: "string list" where
  "param_keys = map fst PARAM_SPACE"

subsection \<open>The parts of streamSettings\<close>

text \<open>
  \<open>_build_stream_settings\<close> writes the network, then the transport block, the security
  block and the socket options, in this order; these are the entries that each block
  contributes.
\<close>

definition trans_part :: "pydict \<Rightarrow> pydict \<Rightarrow> pyval \<Rightarrow> pydict" where
  "trans_part config overrides t = tl (transport_settings config overrides t [(''network'', t)])"

definition insecure_option :: "pydict \<Rightarrow> pydict \<Rightarrow> pydict" where
  "insecure_option config tls =
     (if truthy (get config ''allow_insecure'')
      then setitem ''allowInsecure'' (PBool True) tls else tls)"

definition sec_part0 :: "pydict \<Rightarrow> pydict \<Rightarrow> pyval \<Rightarrow> py_error + pydict" where
  "sec_part0 config overrides security =
     (if security = PStr ''reality'' then
        Inr [(''security'', PStr ''reality''),
             (''realitySettings'',
                PDict [(''serverName'', getd config ''sni'' (PStr [])),
                       (''fingerprint'',
                          getd overrides ''fingerprint''
                            (getd config ''fingerprint'' (PStr ''chrome''))),
                       (''publicKey'', getd config ''public_key'' (PStr [])),
                       (''shortId'', getd config ''short_id'' (PStr []))])]
      else if security = PStr ''tls'' then
        bind (tls_alpn config overrides) (\<lambda>alpn.
        bind (getitem config ''address'') (\<lambda>address.
          Inr [(''security'', PStr ''tls''),
               (''tlsSettings'',
                  PDict (ech_option overrides
                          (truthy_option ''alpn'' alpn
                            (truthy_option ''fingerprint''
                               (getd overrides ''fingerprint''
                                  (getd config ''fingerprint'' (PStr [])))
                               [(''serverName'', getd config ''sni'' address)]))))]))
      else Inr [(''security'', PStr ''none'')])"

definition sec_part :: "pydict \<Rightarrow> pydict \<Rightarrow> pyval \<Rightarrow> py_error + pydict" where
  "sec_part config overrides security =
     (if security = PStr ''reality'' then
        Inr [(''security'', PStr ''reality''),
             (''realitySettings'',
                PDict [(''serverName'', getd config ''sni'' (PStr [])),
                       (''fingerprint'',
                          getd overrides ''fingerprint''
                            (getd config ''fingerprint'' (PStr ''chrome''))),
                       (''publicKey'', getd config ''public_key'' (PStr [])),
                       (''shortId'', getd config ''short_id'' (PStr []))])]
      else if security = PStr ''tls'' then
        bind (tls_alpn config overrides) (\<lambda>alpn.
        bind (getitem config ''address'') (\<lambda>address.
          Inr [(''security'', PStr ''tls''),
               (''tlsSettings'',
                  PDict (insecure_option config
                          (ech_option overrides
                            (truthy_option ''alpn'' alpn
                              (truthy_option ''fingerprint''
                                 (getd overrides ''fingerprint''
                                    (getd config ''fingerprint'' (PStr [])))
                                 [(''serverName'', getd config ''sni'' address)])))))]))
      else Inr [(''security'', PStr ''none'')])"

definition sockopt_part :: "pydict \<Rightarrow> pydict \<Rightarrow> pydict" where
  "sockopt_part overrides cfg =
     (if build_sockopt overrides cfg \<noteq> []
      then [(''sockopt'', PDict (build_sockopt overrides cfg))] else [])"

subsection \<open>Runs of a batch\<close>

text \<open>
  The tasks that complete during a run, in the order of their completion, and the result
  of task \<open>i\<close>.
\<close>

fun finish_order :: "event list \<Rightarrow> nat list" where
  "finish_order [] = []"
| "finish_order (Acquire i # es) = finish_order es"
| "finish_order (Finish i # es) = i # finish_order es"

definition task_result :: "task list \<Rightarrow> bool \<Rightarrow> nat \<Rightarrow> TestResult" where
  "task_result tests measure_speed i = probe (fst (tests ! i)) measure_speed (snd (tests ! i))"

text \<open>
  What holds after the events \<open>d\<close> of a run from the initial state: every task is
  waiting, running or done, and only one of them; the permits in use are those of the
  running tasks; the results are those of the done tasks, in order of completion; the
  port counter has counted the probes started; and each event has used up one of the two
  steps of a task.
\<close>

definition batch_inv ::
  "task list \<Rightarrow> bool \<Rightarrow> nat \<Rightarrow> int \<Rightarrow> event list \<Rightarrow> batch_state \<Rightarrow> bool" where
  "batch_inv tests ms c pc d s =
     (distinct (waiting s @ running s @ finish_order d)
      \<and> set (waiting s @ running s @ finish_order d) = {..<length tests}
      \<and> sem s + length (running s) = c
      \<and> results s = map (task_result tests ms) (finish_order d)
      \<and> completed s = length (finish_order d)
      \<and> port_counter s = pc + int (length (running s) + length (finish_order d))
      \<and> length d + 2 * length (waiting s) + length (running s) = 2 * length tests)"


text \<open>A probe in which xray exits with code 1 during the settle delay, and two tasks.\<close>

definition env_crash :: probe_env where
  "env_crash = \<lparr>spawn = None, returncode = Some 1, request = Inl TimeoutError, t_start = 0,
                 t_end = 0, speed_request = None, session_close = None\<rparr>"

definition example_doc :: pydict where
  "example_doc =
     (case build_xray_json example_shadowsocks [] 10808 of
        Inl e \<Rightarrow> []
      | Inr xj \<Rightarrow> stamp [] ''baseline (no changes)'' xj)"

definition example_tasks :: "task list" where
  "example_tasks = [(example_doc, env_ok), (example_doc, env_crash)]"

section \<open>Properties\<close>

subsection \<open>The sweep\<close>

lemma sweep_values_append:
  "sweep_values key vs tests = tests @ map (singleton_case key) vs"
  by (induction vs arbitrary: tests) (simp_all add: singleton_case_def)

lemma sweep_keys_append:
  "sweep_keys keys tests =
     tests @ concat (map (\<lambda>k. map (singleton_case k) (value_domain k)) keys)"
  by (induction keys arbitrary: tests)
     (simp_all add: sweep_values_append value_domain_def split: option.split)

lemma sweep_groups_append:
  "sweep_groups param_groups tests = tests @ spec_sweep param_groups"
  by (induction param_groups arbitrary: tests)
     (simp_all add: sweep_keys_append spec_sweep_def)

lemma generate_smart_grid_eq:
  "generate_smart_grid config param_groups =
     ([], ''baseline (no changes)'') # spec_sweep param_groups"
  by (simp add: generate_smart_grid_def sweep_groups_append)

lemma spec_sweep_nonempty_overrides:
  "filter (\<lambda>(overrides, desc). overrides \<noteq> []) (spec_sweep param_groups) =
     spec_sweep param_groups"
  by (rule filter_True) (auto simp: spec_sweep_def singleton_case_def)

lemma sweep_cases_eq: "sweep_cases config param_groups = spec_sweep param_groups"
  by (simp add: sweep_cases_def generate_smart_grid_eq spec_sweep_nonempty_overrides)

lemma length_spec_sweep:
  "length (spec_sweep param_groups) =
     sum_list (map (\<lambda>k. length (value_domain k)) (concat (map group_keys param_groups)))"
  by (induction param_groups) (simp_all add: spec_sweep_def length_concat comp_def)

lemma spec_sweep_fingerprint:
  "spec_sweep [''fingerprint''] =
     map (singleton_case ''fingerprint'')
       (map PStr [''chrome'', ''firefox'', ''safari'', ''edge'', ''qq'', ''random'', ''ios'',
                  ''android''])"
  by (simp add: spec_sweep_def group_keys_def PARAM_GROUPS_def value_domain_def PARAM_SPACE_def)

text \<open>
  C2 (as stated, refuted). \<open>generate_smart_grid\<close> itself puts the baseline first: for
  \<open>["fingerprint"]\<close> it returns 9 entries, and the first one is the empty override set.
\<close>

theorem smart_grid_baseline_counterexample:
  "generate_smart_grid example_vless [''fingerprint''] ! 0 = ([], ''baseline (no changes)'')
   \<and> length (generate_smart_grid example_vless [''fingerprint'']) = 9"
  by (simp add: generate_smart_grid_eq spec_sweep_fingerprint)

text \<open>
  C2 (amended). \<open>generate_smart_grid\<close> returns the baseline entry followed by exactly one
  singleton override set per (key, value) pair of the requested groups' member dimensions,
  in group, key and value order; the sweep phase of \<open>smart_search\<close> filters the baseline
  out, so the cases it probes are exactly those singletons, and their number is the sum of
  the domain sizes. For \<open>["fingerprint"]\<close> the function returns 9 entries and the sweep
  phase probes 8.
\<close>

theorem smart_grid_sweep:
  "generate_smart_grid config param_groups =
     ([], ''baseline (no changes)'') # spec_sweep param_groups
   \<and> sweep_cases config param_groups = spec_sweep param_groups
   \<and> length (sweep_cases config param_groups) =
       sum_list (map (\<lambda>k. length (value_domain k)) (concat (map group_keys param_groups)))
   \<and> length (generate_smart_grid config param_groups) =
       1 + sum_list (map (\<lambda>k. length (value_domain k)) (concat (map group_keys param_groups)))
   \<and> length (generate_smart_grid config [''fingerprint'']) = 9
   \<and> length (sweep_cases config [''fingerprint'']) = 8"
  by (simp add: generate_smart_grid_eq sweep_cases_eq length_spec_sweep spec_sweep_fingerprint)

subsection \<open>Quick mode\<close>

text \<open>
  C3 (the code departs from it). \<open>quick_search\<close> is \<open>smart_search\<close> over the names
  \<open>fragment\<close>, \<open>fingerprint\<close>, \<open>alpn\<close>; but \<open>fragment\<close> is neither a group of
  \<open>PARAM_GROUPS\<close> nor a key of \<open>PARAM_SPACE\<close>, so the sweep skips it: the sweep of
  quick mode is the 8 fingerprint and 3 ALPN cases and holds no fragmentation case, while
  the groups of \<open>QUICK_PARAMS\<close>, which \<open>generate_quick_grid\<close> uses, give 26 cases.
\<close>

theorem quick_search_sweep:
  "quick_search w config concurrency measure_speed pc =
     smart_search w config [''fragment'', ''fingerprint'', ''alpn''] concurrency measure_speed pc
   \<and> group_keys ''fragment'' = [''fragment'']
   \<and> map_of PARAM_SPACE ''fragment'' = None
   \<and> map fst (sweep_cases config quick_groups) =
       [[(''fingerprint'', PStr ''chrome'')], [(''fingerprint'', PStr ''firefox'')],
        [(''fingerprint'', PStr ''safari'')], [(''fingerprint'', PStr ''edge'')],
        [(''fingerprint'', PStr ''qq'')], [(''fingerprint'', PStr ''random'')],
        [(''fingerprint'', PStr ''ios'')], [(''fingerprint'', PStr ''android'')],
        [(''alpn'', PList [PStr ''h2''])], [(''alpn'', PList [PStr ''http/1.1''])],
        [(''alpn'', PList [PStr ''h2'', PStr ''http/1.1''])]]
   \<and> length (sweep_cases config QUICK_PARAMS) = 26
   \<and> length (generate_quick_grid config) = 27"
proof -
  have "map fst (spec_sweep quick_groups) =
       [[(''fingerprint'', PStr ''chrome'')], [(''fingerprint'', PStr ''firefox'')],
        [(''fingerprint'', PStr ''safari'')], [(''fingerprint'', PStr ''edge'')],
        [(''fingerprint'', PStr ''qq'')], [(''fingerprint'', PStr ''random'')],
        [(''fingerprint'', PStr ''ios'')], [(''fingerprint'', PStr ''android'')],
        [(''alpn'', PList [PStr ''h2''])], [(''alpn'', PList [PStr ''http/1.1''])],
        [(''alpn'', PList [PStr ''h2'', PStr ''http/1.1''])]]"
    by (simp add: quick_groups_def spec_sweep_def group_keys_def PARAM_GROUPS_def
          value_domain_def PARAM_SPACE_def singleton_case_def)
  moreover have "length (spec_sweep QUICK_PARAMS) = 26"
    by (simp add: length_spec_sweep QUICK_PARAMS_def group_keys_def PARAM_GROUPS_def
          value_domain_def PARAM_SPACE_def)
  moreover have "group_keys ''fragment'' = [''fragment'']"
    by (simp add: group_keys_def PARAM_GROUPS_def)
  moreover have "map_of PARAM_SPACE ''fragment'' = None"
    by (simp add: PARAM_SPACE_def)
  ultimately show ?thesis
    by (simp add: quick_search_def quick_groups_def sweep_cases_eq generate_quick_grid_def
          generate_smart_grid_eq)
qed

subsection \<open>Combining winners\<close>

lemma generate_combination_grid_single:
  "generate_combination_grid [(g, rs)] top_n =
     map (\<lambda>ov. (dict_update [] ov, join '' + '' (map (\<lambda>(k, v). k @ ''='' @ py_str v) ov)))
       (map fst (py_take top_n rs))"
  by (simp add: generate_combination_grid_def Let_def comp_def)

text \<open>
  C1 (as stated, refuted). With one group that has one winner,
  \<open>generate_combination_grid\<close> returns that winner as a combination of its own.
\<close>

theorem combine_single_group_counterexample:
  "generate_combination_grid
     [(''fingerprint'', [([(''fingerprint'', PStr ''chrome'')], 50)])] 3 =
   [([(''fingerprint'', PStr ''chrome'')], ''fingerprint=chrome'')]"
  by (simp add: generate_combination_grid_single py_take_def py_str_def)

text \<open>
  C1 (amended). The guard is in the caller: when exactly one group has winners, phase 3
  of \<open>smart_search\<close> generates and probes no combination and starts no probe.
  \<open>generate_combination_grid\<close> itself, given one group, returns one case per winner
  among the group's first \<open>top_n\<close>, each made of that winner's overrides alone.
\<close>

theorem combine_single_group:
  "combine_phase w config concurrency measure_speed [(g, rs)] pc = Some (Inr ([], pc))
   \<and> generate_combination_grid [(g, rs)] top_n =
       map (\<lambda>ov. (dict_update [] ov,
                   join '' + '' (map (\<lambda>(k, v). k @ ''='' @ py_str v) ov)))
         (map fst (py_take top_n rs))
   \<and> length (generate_combination_grid [(g, rs)] top_n) = length (py_take top_n rs)"
  by (simp add: generate_combination_grid_single combine_phase_def)

subsection \<open>Success and latency of a probe result\<close>

lemma handle_keeps [simp]:
  "success (handle e r) = success r" "latency_ms (handle e r) = latency_ms r"
  by (cases e; simp)+

lemma close_session_keeps [simp]:
  "success (close_session env r) = success r"
  "latency_ms (close_session env r) = latency_ms r"
  by (simp_all add: close_session_def split: option.split)

lemma speed_test_keeps [simp]:
  "success (speed_test ms env r) = success r"
  "latency_ms (speed_test ms env r) = latency_ms r"
  by (simp_all add: speed_test_def split: option.split)

lemma py_int_nonneg: "0 \<le> x \<Longrightarrow> 0 \<le> py_int x"
  by (simp add: py_int_def)

text \<open>
  C6. For the result of every probe, \<open>success\<close> holds exactly when \<open>latency_ms \<ge> 0\<close>,
  and fails exactly when \<open>latency_ms = -1\<close>. The monotonic clock does not run backwards:
  the reading after the response is not below the one before the request.
\<close>

theorem probe_success_latency:
  assumes "t_start env \<le> t_end env"
  shows "(success (fst (test_single xray_json measure_speed env pc))
            \<longleftrightarrow> 0 \<le> latency_ms (fst (test_single xray_json measure_speed env pc)))
       \<and> (\<not> success (fst (test_single xray_json measure_speed env pc))
            \<longleftrightarrow> latency_ms (fst (test_single xray_json measure_speed env pc)) = - 1)"
proof -
  have nn: "0 \<le> py_int ((t_end env - t_start env) * 1000)"
    using assms by (intro py_int_nonneg) simp
  show ?thesis
    using nn
    by (auto simp: test_single_def next_port_def probe_def Let_def
             split: option.splits sum.splits)
qed

theorem probe_success_latency_witness:
  "t_start env_ok \<le> t_end env_ok
   \<and> (success (fst (test_single example_vless False env_ok 0))
        \<longleftrightarrow> 0 \<le> latency_ms (fst (test_single example_vless False env_ok 0)))
   \<and> (\<not> success (fst (test_single example_vless False env_ok 0))
        \<longleftrightarrow> latency_ms (fst (test_single example_vless False env_ok 0)) = - 1)"
proof -
  have h: "t_start env_ok \<le> t_end env_ok"
    by (simp add: env_ok_def)
  from probe_success_latency [OF h, of example_vless False 0] h show ?thesis
    by blast
qed

subsection \<open>Unknown and recognized protocol variants\<close>













subsection \<open>Overrides that leave the document unchanged\<close>

lemma build_sockopt_ech:
  "build_sockopt [(''ech_dns'', v)] cfg = build_sockopt [] cfg"
  "build_sockopt [(''ech_enabled'', v)] cfg = build_sockopt [] cfg"
  by (simp_all add: build_sockopt_def tcp_option_def fragment_option_def
        getd_def get_def contains_def)

lemma transport_settings_ech:
  "transport_settings config [(''ech_dns'', v)] t s = transport_settings config [] t s"
  "transport_settings config [(''ech_enabled'', v)] t s = transport_settings config [] t s"
  by (simp_all add: transport_settings_def getd_def get_def)

lemma tls_alpn_ech:
  "tls_alpn config [(''ech_dns'', v)] = tls_alpn config []"
  "tls_alpn config [(''ech_enabled'', v)] = tls_alpn config []"
  by (simp_all add: tls_alpn_def getd_def get_def)

lemma ech_option_off:
  "ech_option [(''ech_dns'', v)] tls = tls"
  "ech_option [(''ech_enabled'', PBool False)] tls = tls"
  "ech_option [] tls = tls"
  by (simp_all add: ech_option_def getd_def get_def)

lemma security_settings_ech:
  "security_settings config [(''ech_dns'', v)] sec s = security_settings config [] sec s"
  "security_settings config [(''ech_enabled'', PBool False)] sec s =
     security_settings config [] sec s"
  by (simp_all add: security_settings_def tls_alpn_ech ech_option_off)
     (simp_all add: getd_def)

lemma build_stream_settings_ech:
  "build_stream_settings config [(''ech_dns'', v)] sec t =
     build_stream_settings config [] sec t"
  "build_stream_settings config [(''ech_enabled'', PBool False)] sec t =
     build_stream_settings config [] sec t"
  by (simp_all add: build_stream_settings_def security_settings_ech transport_settings_ech
        apply_sockopt_def build_sockopt_ech)

lemma outbound_ech:
  "build_vless_outbound config [(''ech_dns'', v)] = build_vless_outbound config []"
  "build_vless_outbound config [(''ech_enabled'', PBool False)] =
     build_vless_outbound config []"
  "build_vmess_outbound config [(''ech_dns'', v)] = build_vmess_outbound config []"
  "build_vmess_outbound config [(''ech_enabled'', PBool False)] =
     build_vmess_outbound config []"
  "build_trojan_outbound config [(''ech_dns'', v)] = build_trojan_outbound config []"
  "build_trojan_outbound config [(''ech_enabled'', PBool False)] =
     build_trojan_outbound config []"
  "build_shadowsocks_outbound config [(''ech_dns'', v)] =
     build_shadowsocks_outbound config []"
  "build_shadowsocks_outbound config [(''ech_enabled'', PBool False)] =
     build_shadowsocks_outbound config []"
  by (simp_all add: build_vless_outbound_def build_vmess_outbound_def
        build_trojan_outbound_def build_shadowsocks_outbound_def build_stream_settings_ech
        apply_sockopt_def build_sockopt_ech)
     (simp_all add: getd_def)

text \<open>
  C10. For every base configuration (so for every one with standard TLS security) and
  every port, the build from \<open>{ech_dns: v}\<close>, for either boolean \<open>v\<close>, and the build
  from \<open>{ech_enabled: False}\<close> give what the build from the empty override set gives:
  these sweep cases probe the baseline document again.
\<close>

theorem ech_sweep_cases_are_baseline:
  "build_xray_json config [(''ech_dns'', PBool v)] port = build_xray_json config [] port
   \<and> build_xray_json config [(''ech_enabled'', PBool False)] port =
       build_xray_json config [] port"
  by (simp add: build_xray_json_def outbound_ech cong: if_cong)

subsection \<open>A single override and the rest of the document\<close>

lemmas eval_defs = build_xray_json_def build_vless_outbound_def build_trojan_outbound_def
  build_shadowsocks_outbound_def build_stream_settings_def
  security_settings_def transport_settings_def tls_alpn_def ech_option_def truthy_option_def
  allow_insecure_def apply_sockopt_def build_sockopt_def tcp_option_def fragment_option_def
  getd_def get_def contains_def getitem_def bind_def py_or_def outbound_def document_def
  inbound_def doc_lookup_def stream_path_def Let_def

text \<open>
  C4 (as stated, refuted). With the override \<open>{fragment_length: "10-20"}\<close> on a base
  configuration without fragment values, the document also holds the field
  \<open>sockopt.fragment.interval\<close>, which the baseline document of the same port lacks: the
  two documents differ in a field other than the one of \<open>fragment_length\<close>.
\<close>

theorem single_override_frame_counterexample:
  "doc_lookup (stream_path @ [K ''sockopt'', K ''fragment'', K ''interval''])
     (build_xray_json example_vless [(''fragment_length'', PStr ''10-20'')] 10808) =
     Some (PStr ''10-20'')
   \<and> doc_lookup (stream_path @ [K ''sockopt'', K ''fragment'', K ''interval''])
       (build_xray_json example_vless [] 10808) = None"
  by (simp add: example_vless_def eval_defs)

lemma transport_settings_nf:
  "transport_settings config overrides t [(''network'', t)] = (''network'', t) # trans_part config overrides t"
  by (simp add: trans_part_def transport_settings_def Let_def)

lemma setitem_append_new: "map_of d k = None \<Longrightarrow> setitem k v d = d @ [(k, v)]"
  by (induction d) (auto split: if_splits)

lemma map_of_trans_part:
  "k \<noteq> ''wsSettings'' \<Longrightarrow> k \<noteq> ''grpcSettings'' \<Longrightarrow> k \<noteq> ''httpSettings'' \<Longrightarrow> k \<noteq> ''xhttpSettings''
   \<Longrightarrow> map_of (trans_part config overrides t) k = None"
  by (simp add: trans_part_def transport_settings_def Let_def)

lemma security_settings_nf:
  assumes "map_of s ''security'' = None" "map_of s ''tlsSettings'' = None"
    "map_of s ''realitySettings'' = None"
  shows "security_settings config overrides sec s =
           bind (sec_part0 config overrides sec) (\<lambda>sp. Inr (s @ sp))"
  by (simp add: security_settings_def sec_part0_def setitem_append_new assms bind_def Let_def
           split: sum.splits)

lemma apply_sockopt_nf:
  "map_of stream ''sockopt'' = None \<Longrightarrow>
   apply_sockopt stream overrides (Some config) = stream @ sockopt_part overrides config"
  by (simp add: apply_sockopt_def sockopt_part_def setitem_append_new Let_def)

lemma sec_part0_keys:
  "sec_part0 config overrides sec = Inr sp \<Longrightarrow> map_of sp ''sockopt'' = None"
  by (auto simp: sec_part0_def bind_def split: if_splits sum.splits)

lemma map_of_sockopt_part: "k \<noteq> ''sockopt'' \<Longrightarrow> map_of (sockopt_part overrides config) k = None"
  by (simp add: sockopt_part_def)

lemma setitem_append_old: "map_of xs k = None \<Longrightarrow> setitem k v (xs @ ys) = xs @ setitem k v ys"
  by (induction xs) (auto split: if_splits)

lemma allow_insecure_none:
  "map_of stream ''tlsSettings'' = None \<Longrightarrow> allow_insecure config stream = stream"
  by (simp add: allow_insecure_def contains_def)

lemma allow_insecure_tls:
  "map_of pre ''tlsSettings'' = None \<Longrightarrow>
   allow_insecure config (pre @ (''tlsSettings'', PDict tls) # post) =
     pre @ (''tlsSettings'', PDict (insecure_option config tls)) # post"
proof -
  assume pre: "map_of pre ''tlsSettings'' = None"
  have m: "map_of (pre @ (''tlsSettings'', PDict tls) # post) ''tlsSettings'' = Some (PDict tls)"
    by (simp add: map_of_append map_add_def pre)
  show ?thesis
    by (simp add: allow_insecure_def contains_def get_def getd_def insecure_option_def m
          setitem_append_old [OF pre] del: map_of_append)
qed

lemma stream_nf:
  "build_stream_settings config overrides sec t =
     bind (sec_part config overrides sec)
       (\<lambda>sp. Inr ((''network'', t) # trans_part config overrides t @ sp @ sockopt_part overrides config))"
proof -
  let ?s = "(''network'', t) # trans_part config overrides t"
  have keys: "map_of ?s ''security'' = None" "map_of ?s ''tlsSettings'' = None"
     "map_of ?s ''realitySettings'' = None" "map_of ?s ''sockopt'' = None"
    by (simp_all add: map_of_trans_part)
  have 1: "build_stream_settings config overrides sec t =
     bind (sec_part0 config overrides sec)
        (\<lambda>sp. Inr (allow_insecure config (?s @ sp @ sockopt_part overrides config)))"
    using keys(4)
    by (auto simp: build_stream_settings_def transport_settings_nf security_settings_nf [OF keys(1-3)]
         bind_def apply_sockopt_nf map_of_append sec_part0_keys split: sum.splits)
  show ?thesis
  proof (cases "sec = PStr ''tls''")
    case True
    show ?thesis
    proof (cases "tls_alpn config overrides")
      case (Inl e)
      then show ?thesis unfolding 1 by (simp add: True sec_part_def sec_part0_def bind_def)
    next
      case alpn: (Inr alpn)
      show ?thesis
      proof (cases "getitem config ''address''")
        case (Inl e)
        then show ?thesis unfolding 1 by (simp add: True alpn sec_part_def sec_part0_def bind_def)
      next
        case (Inr address)
        let ?tls = "ech_option overrides
                      (truthy_option ''alpn'' alpn
                        (truthy_option ''fingerprint''
                           (getd overrides ''fingerprint'' (getd config ''fingerprint'' (PStr [])))
                           [(''serverName'', getd config ''sni'' address)]))"
        have "allow_insecure config
                ((?s @ [(''security'', PStr ''tls'')]) @ (''tlsSettings'', PDict ?tls) #
                   sockopt_part overrides config) =
              (?s @ [(''security'', PStr ''tls'')]) @
                (''tlsSettings'', PDict (insecure_option config ?tls)) #
                sockopt_part overrides config"
          by (rule allow_insecure_tls) (simp add: map_of_trans_part map_of_append)
        then show ?thesis
          unfolding 1 by (simp add: True alpn Inr sec_part_def sec_part0_def bind_def)
      qed
    qed
  next
    case False
    have same: "sec_part config overrides sec = sec_part0 config overrides sec"
      using False by (simp add: sec_part_def sec_part0_def)
    show ?thesis
    proof (cases "sec_part0 config overrides sec")
      case (Inl e)
      then show ?thesis unfolding 1 by (simp add: same bind_def)
    next
      case (Inr sp)
      have "map_of sp ''tlsSettings'' = None"
        using Inr False by (auto simp: sec_part0_def split: if_splits)
      then have "allow_insecure config (?s @ sp @ sockopt_part overrides config) =
                   ?s @ sp @ sockopt_part overrides config"
        by (intro allow_insecure_none)
           (simp add: map_of_append map_of_trans_part map_of_sockopt_part)
      then show ?thesis using Inr unfolding 1 by (simp add: same bind_def)
    qed
  qed
qed


lemma del_path_append: "del_path p (xs @ ys) = del_path p xs @ del_path p ys"
  by (cases "(p, xs)" rule: del_path.cases) simp_all

lemma fold_del_path_append:
  "fold del_path ps (xs @ ys) = fold del_path ps xs @ fold del_path ps ys"
  by (induction ps arbitrary: xs ys) (simp_all add: del_path_append)

lemma erase_governed_append:
  "erase_governed key (xs @ ys) = erase_governed key xs @ erase_governed key ys"
  by (simp add: erase_governed_def fold_del_path_append prune_empty_def)

lemma value_domain_key:
  assumes "v \<in> set (value_domain key)"
  shows "key \<in> set param_keys"
proof (cases "map_of PARAM_SPACE key")
  case None
  with assms show ?thesis by (simp add: value_domain_def)
next
  case (Some vs)
  then have "(key, vs) \<in> set PARAM_SPACE"
    by (rule map_of_SomeD)
  then show ?thesis
    by (force simp: param_keys_def)
qed

lemmas erase_defs = erase_governed_def governed_def prune_empty_def

lemma single_other:
  "key \<noteq> k \<Longrightarrow> getd [(key, v)] k d = d"
  "key \<noteq> k \<Longrightarrow> get [(key, v)] k = PNone"
  "key \<noteq> k \<Longrightarrow> \<not> contains [(key, v)] k"
  "getd [] k d = d" "get [] k = PNone" "\<not> contains [] k"
  by (simp_all add: getd_def get_def contains_def)

lemma build_sockopt_other:
  "key \<notin> {''fragment_length'', ''fragment_interval'', ''fragment_packets'', ''tcp_no_delay'',
            ''tcp_fast_open'', ''mptcp'', ''tcp_keep_alive'', ''domain_strategy''} \<Longrightarrow>
   build_sockopt [(key, v)] cfg = build_sockopt [] cfg"
  by (simp add: build_sockopt_def tcp_option_def fragment_option_def single_other)

lemma sockopt_part_erase_own:
  "key \<in> {''fragment_length'', ''fragment_interval'', ''fragment_packets'', ''tcp_no_delay'',
            ''tcp_fast_open'', ''mptcp'', ''tcp_keep_alive'', ''domain_strategy''} \<Longrightarrow>
   erase_governed key (sockopt_part [(key, v)] cfg) = erase_governed key (sockopt_part [] cfg)"
  apply simp
  apply (elim disjE)
  apply (simp_all add: sockopt_part_def build_sockopt_def tcp_option_def fragment_option_def
           getd_def get_def contains_def erase_defs Let_def)
  done

lemma sockopt_part_erase:
  "erase_governed key (sockopt_part [(key, v)] cfg) = erase_governed key (sockopt_part [] cfg)"
proof (cases "key \<in> {''fragment_length'', ''fragment_interval'', ''fragment_packets'',
            ''tcp_no_delay'', ''tcp_fast_open'', ''mptcp'', ''tcp_keep_alive'',
            ''domain_strategy''}")
  case True
  then show ?thesis by (rule sockopt_part_erase_own)
next
  case False
  then have "build_sockopt [(key, v)] cfg = build_sockopt [] cfg"
    by (rule build_sockopt_other)
  then show ?thesis by (simp only: sockopt_part_def)
qed

lemma trans_part_other:
  "key \<noteq> ''xhttp_mode'' \<Longrightarrow> trans_part config [(key, v)] t = trans_part config [] t"
  by (simp add: trans_part_def transport_settings_def single_other)

lemma trans_part_erase:
  assumes "key = ''transport'' \<or> t = t0"
  shows "erase_governed key ((''network'', t) # trans_part config [(key, v)] t) =
         erase_governed key ((''network'', t0) # trans_part config [] t0)"
proof -
  consider "key = ''transport''" | "key = ''xhttp_mode''" "t = t0"
    | "key \<noteq> ''xhttp_mode''" "t = t0"
    using assms by blast
  then show ?thesis
  proof cases
    case 1
    then show ?thesis
      by (simp add: trans_part_def transport_settings_def erase_defs Let_def)
  next
    case 2
    then show ?thesis
      by (simp add: trans_part_def transport_settings_def erase_defs Let_def get_def getd_def)
  next
    case 3
    from 3(1) have "trans_part config [(key, v)] t = trans_part config [] t"
      by (rule trans_part_other)
    with 3(2) show ?thesis by simp
  qed
qed

lemma filter_setitem_same:
  "filter (\<lambda>(key, v). key \<noteq> k) (setitem k v d) = filter (\<lambda>(key, v). key \<noteq> k) d"
  by (induction d) auto

lemma filter_setitem_other:
  "k \<noteq> k' \<Longrightarrow> filter (\<lambda>(key, v). key \<noteq> k) (setitem k' v d) =
     setitem k' v (filter (\<lambda>(key, v). key \<noteq> k) d)"
  by (induction d) auto

lemma filter_truthy_option_same:
  "filter (\<lambda>(key, v). key \<noteq> k) (truthy_option k v d) = filter (\<lambda>(key, v). key \<noteq> k) d"
  by (simp add: truthy_option_def filter_setitem_same)

lemma filter_truthy_option_other:
  "k \<noteq> k' \<Longrightarrow> filter (\<lambda>(key, v). key \<noteq> k) (truthy_option k' v d) =
     truthy_option k' v (filter (\<lambda>(key, v). key \<noteq> k) d)"
  by (simp add: truthy_option_def filter_setitem_other)

lemma filter_ech_option_same:
  "filter (\<lambda>(key, v). key \<noteq> ''ech'') (ech_option ov d) = filter (\<lambda>(key, v). key \<noteq> ''ech'') d"
  by (simp add: ech_option_def filter_setitem_same)

lemma filter_ech_option_other:
  "k \<noteq> ''ech'' \<Longrightarrow> filter (\<lambda>(key, v). key \<noteq> k) (ech_option ov d) =
     ech_option ov (filter (\<lambda>(key, v). key \<noteq> k) d)"
  by (simp add: ech_option_def filter_setitem_other)

lemma filter_insecure_option:
  "k \<noteq> ''allowInsecure'' \<Longrightarrow> filter (\<lambda>(key, v). key \<noteq> k) (insecure_option config d) =
     insecure_option config (filter (\<lambda>(key, v). key \<noteq> k) d)"
  by (simp add: insecure_option_def filter_setitem_other)

lemmas filter_options = filter_truthy_option_same filter_truthy_option_other
  filter_ech_option_same filter_ech_option_other filter_insecure_option

lemma sec_part_other:
  "key \<noteq> ''fingerprint'' \<Longrightarrow> key \<noteq> ''alpn'' \<Longrightarrow> key \<noteq> ''ech_enabled'' \<Longrightarrow>
   sec_part config [(key, v)] sec = sec_part config [] sec"
  by (simp add: sec_part_def tls_alpn_def ech_option_def getd_def get_def)

lemma tls_alpn_other: "key \<noteq> ''alpn'' \<Longrightarrow> tls_alpn config [(key, v)] = tls_alpn config []"
  by (simp add: tls_alpn_def get_def getd_def)

lemma tls_alpn_override:
  "tls_alpn config [] = Inr a \<Longrightarrow> \<exists>a'. tls_alpn config [(''alpn'', v)] = Inr a'"
  by (simp add: tls_alpn_def get_def getd_def Let_def)

lemma ech_option_other:
  "key \<noteq> ''ech_enabled'' \<Longrightarrow> key \<noteq> ''ech_dns'' \<Longrightarrow> ech_option [(key, v)] d = ech_option [] d"
  by (simp add: ech_option_def get_def getd_def)

lemma getd_single_other: "key \<noteq> k \<Longrightarrow> getd [(key, v)] k d = d"
  by (simp add: getd_def)

lemma getd_empty: "getd [] k d = d"
  by (simp add: getd_def)

lemma sec_part_fingerprint:
  assumes "sec_part config [] sec = Inr sp0"
  shows "\<exists>sp. sec_part config [(''fingerprint'', v)] sec = Inr sp
        \<and> erase_governed ''fingerprint'' sp = erase_governed ''fingerprint'' sp0"
  using assms
  by (auto simp: sec_part_def bind_def tls_alpn_other ech_option_other erase_defs filter_options
        split: if_splits sum.splits)

lemma sec_part_alpn:
  assumes "sec_part config [] sec = Inr sp0"
  shows "\<exists>sp. sec_part config [(''alpn'', v)] sec = Inr sp
        \<and> erase_governed ''alpn'' sp = erase_governed ''alpn'' sp0"
proof (cases "sec = PStr ''tls''")
  case True
  from assms True obtain a addr where a: "tls_alpn config [] = Inr a"
      and addr: "getitem config ''address'' = Inr addr"
    by (auto simp: sec_part_def bind_def split: sum.splits)
  from tls_alpn_override [OF a] obtain a' where a': "tls_alpn config [(''alpn'', v)] = Inr a'"
    by blast
  from assms show ?thesis
    by (auto simp: True sec_part_def bind_def a a' addr ech_option_other erase_defs
          filter_options getd_single_other getd_empty)
next
  case False
  with assms show ?thesis
    by (auto simp: sec_part_def getd_single_other getd_empty split: if_splits)
qed

lemma sec_part_ech_enabled:
  assumes "sec_part config [] sec = Inr sp0"
  shows "\<exists>sp. sec_part config [(''ech_enabled'', v)] sec = Inr sp
        \<and> erase_governed ''ech_enabled'' sp = erase_governed ''ech_enabled'' sp0"
  using assms
  by (auto simp: sec_part_def bind_def tls_alpn_other erase_defs filter_options
        getd_single_other getd_empty
        split: if_splits sum.splits)

lemma sec_part_erase:
  assumes "key \<in> set param_keys" "sec_part config [] sec = Inr sp0"
  shows "\<exists>sp. sec_part config [(key, v)] sec = Inr sp
             \<and> erase_governed key sp = erase_governed key sp0"
proof -
  consider "key = ''fingerprint''" | "key = ''alpn''" | "key = ''ech_enabled''"
    | "key \<noteq> ''fingerprint''" "key \<noteq> ''alpn''" "key \<noteq> ''ech_enabled''"
    by blast
  then show ?thesis
  proof cases
    case 1
    with sec_part_fingerprint [OF assms(2)] show ?thesis by simp
  next
    case 2
    with sec_part_alpn [OF assms(2)] show ?thesis by simp
  next
    case 3
    with sec_part_ech_enabled [OF assms(2)] show ?thesis by simp
  next
    case 4
    with assms(2) show ?thesis by (simp add: sec_part_other)
  qed
qed

lemma stream_erase:
  assumes key: "key \<in> set param_keys"
    and t: "key = ''transport'' \<or> t = t0"
    and base: "build_stream_settings config [] sec t0 = Inr s0"
  shows "\<exists>s. build_stream_settings config [(key, v)] sec t = Inr s
             \<and> erase_governed key s = erase_governed key s0"
proof -
  from base obtain sp0 where sp0: "sec_part config [] sec = Inr sp0"
    and s0: "s0 = ((''network'', t0) # trans_part config [] t0) @ sp0 @ sockopt_part [] config"
    by (auto simp: stream_nf bind_def split: sum.splits)
  from sec_part_erase [OF key sp0, of v] obtain sp where sp: "sec_part config [(key, v)] sec = Inr sp"
    and esp: "erase_governed key sp = erase_governed key sp0"
    by blast
  let ?s = "((''network'', t) # trans_part config [(key, v)] t) @ sp @ sockopt_part [(key, v)] config"
  have "build_stream_settings config [(key, v)] sec t = Inr ?s"
    by (simp add: stream_nf sp bind_def)
  moreover have "erase_governed key ?s = erase_governed key s0"
    unfolding s0 erase_governed_append
    by (simp only: trans_part_erase [OF t] esp sockopt_part_erase)
  ultimately show ?thesis by blast
qed

lemma transport_choice:
  "key = ''transport'' \<or> getd [(key, v)] ''transport'' d = getd [] ''transport'' d"
  by (simp add: getd_def)

lemma vless_erase:
  assumes key: "key \<in> set param_keys"
    and base: "build_vless_outbound config [] = Inr ob0"
  shows "\<exists>settings stream stream0.
           build_vless_outbound config [(key, v)] = Inr (outbound ''vless'' settings stream)
         \<and> ob0 = outbound ''vless'' settings stream0
         \<and> erase_governed key stream = erase_governed key stream0"
proof -
  let ?sec = "getd config ''security'' (PStr ''tls'')"
  let ?t = "\<lambda>ov. getd ov ''transport'' (getd config ''transport'' (PStr ''tcp''))"
  from base obtain a p u s0 where g: "getitem config ''address'' = Inr a"
      "getitem config ''port'' = Inr p" "getitem config ''uuid'' = Inr u"
    and s0: "build_stream_settings config [] ?sec (?t []) = Inr s0"
    by (auto simp: build_vless_outbound_def bind_def Let_def split: sum.splits)
  from stream_erase [OF key transport_choice s0] obtain s
    where s: "build_stream_settings config [(key, v)] ?sec (?t [(key, v)]) = Inr s"
      and e: "erase_governed key s = erase_governed key s0"
    by blast
  let ?settings = "[(''vnext'', PList [PDict [(''address'', a), (''port'', p),
      (''users'', PList [PDict (if ?sec = PStr ''reality''
          then setitem ''flow'' (getd config ''flow'' (PStr ''xtls-rprx-vision''))
                 [(''id'', u), (''encryption'', PStr ''none'')]
          else [(''id'', u), (''encryption'', PStr ''none'')])])]])]"
  have "ob0 = outbound ''vless'' ?settings s0"
    using base g s0 by (simp add: build_vless_outbound_def bind_def Let_def)
  moreover have "build_vless_outbound config [(key, v)] = Inr (outbound ''vless'' ?settings s)"
    using g s by (simp add: build_vless_outbound_def bind_def Let_def)
  ultimately show ?thesis using e by blast
qed


lemma vmess_erase:
  assumes key: "key \<in> set param_keys"
    and base: "build_vmess_outbound config [] = Inr ob0"
  shows "\<exists>settings stream stream0.
           build_vmess_outbound config [(key, v)] = Inr (outbound ''vmess'' settings stream)
         \<and> ob0 = outbound ''vmess'' settings stream0
         \<and> erase_governed key stream = erase_governed key stream0"
proof -
  let ?sec = "if getd config ''tls'' (PStr ''tls'') = PStr ''tls'' then PStr ''tls''
              else PStr ''none''"
  let ?t = "\<lambda>ov. getd ov ''transport'' (getd config ''transport'' (PStr ''ws''))"
  from base obtain a p u s0 where g: "getitem config ''address'' = Inr a"
      "getitem config ''port'' = Inr p" "getitem config ''uuid'' = Inr u"
    and s0: "build_stream_settings config [] ?sec (?t []) = Inr s0"
    by (auto simp: build_vmess_outbound_def bind_def Let_def split: sum.splits)
  from stream_erase [OF key transport_choice s0] obtain s
    where s: "build_stream_settings config [(key, v)] ?sec (?t [(key, v)]) = Inr s"
      and e: "erase_governed key s = erase_governed key s0"
    by blast
  let ?settings = "[(''vnext'', PList [PDict [(''address'', a), (''port'', p),
      (''users'', PList [PDict [(''id'', u), (''alterId'', getd config ''alter_id'' (PInt 0)),
                                (''security'', getd config ''security'' (PStr ''auto''))]])]])]"
  have "ob0 = outbound ''vmess'' ?settings s0"
    using base g s0 by (simp add: build_vmess_outbound_def bind_def Let_def)
  moreover have "build_vmess_outbound config [(key, v)] = Inr (outbound ''vmess'' ?settings s)"
    using g s by (simp add: build_vmess_outbound_def bind_def Let_def)
  ultimately show ?thesis using e by blast
qed

lemma trojan_erase:
  assumes key: "key \<in> set param_keys"
    and base: "build_trojan_outbound config [] = Inr ob0"
  shows "\<exists>settings stream stream0.
           build_trojan_outbound config [(key, v)] = Inr (outbound ''trojan'' settings stream)
         \<and> ob0 = outbound ''trojan'' settings stream0
         \<and> erase_governed key stream = erase_governed key stream0"
proof -
  let ?sec = "if getd config ''tls'' (PStr ''tls'') = PStr ''tls'' then PStr ''tls''
              else PStr ''none''"
  let ?t = "\<lambda>ov. getd ov ''transport'' (getd config ''transport'' (PStr ''tcp''))"
  from base obtain a p u s0 where g: "getitem config ''address'' = Inr a"
      "getitem config ''port'' = Inr p" "getitem config ''password'' = Inr u"
    and s0: "build_stream_settings config [] ?sec (?t []) = Inr s0"
    by (auto simp: build_trojan_outbound_def bind_def Let_def split: sum.splits)
  from stream_erase [OF key transport_choice s0] obtain s
    where s: "build_stream_settings config [(key, v)] ?sec (?t [(key, v)]) = Inr s"
      and e: "erase_governed key s = erase_governed key s0"
    by blast
  let ?settings = "[(''servers'', PList [PDict [(''address'', a), (''port'', p),
                                                (''password'', u)]])]"
  have "ob0 = outbound ''trojan'' ?settings s0"
    using base g s0 by (simp add: build_trojan_outbound_def bind_def Let_def)
  moreover have "build_trojan_outbound config [(key, v)] = Inr (outbound ''trojan'' ?settings s)"
    using g s by (simp add: build_trojan_outbound_def bind_def Let_def)
  ultimately show ?thesis using e by blast
qed

lemma apply_sockopt_None_nf:
  "map_of stream ''sockopt'' = None \<Longrightarrow>
   apply_sockopt stream overrides None = stream @ sockopt_part overrides []"
  by (simp add: apply_sockopt_def sockopt_part_def setitem_append_new Let_def)

lemma shadowsocks_erase:
  assumes key: "key \<in> set param_keys"
    and base: "build_shadowsocks_outbound config [] = Inr ob0"
  shows "\<exists>settings stream stream0.
           build_shadowsocks_outbound config [(key, v)] =
             Inr (outbound ''shadowsocks'' settings stream)
         \<and> ob0 = outbound ''shadowsocks'' settings stream0
         \<and> erase_governed key stream = erase_governed key stream0"
proof -
  from base obtain a p m u where g: "getitem config ''address'' = Inr a"
      "getitem config ''port'' = Inr p" "getitem config ''method'' = Inr m"
      "getitem config ''password'' = Inr u"
    by (auto simp: build_shadowsocks_outbound_def bind_def Let_def split: sum.splits)
  let ?settings = "[(''servers'', PList [PDict [(''address'', a), (''port'', p),
                                                (''method'', m), (''password'', u)]])]"
  let ?s = "\<lambda>ov. [(''network'', PStr ''tcp'')] @ sockopt_part ov []"
  have "ob0 = outbound ''shadowsocks'' ?settings (?s [])"
    using base g by (simp add: build_shadowsocks_outbound_def bind_def apply_sockopt_None_nf)
  moreover have "build_shadowsocks_outbound config [(key, v)] =
                   Inr (outbound ''shadowsocks'' ?settings (?s [(key, v)]))"
    using g by (simp add: build_shadowsocks_outbound_def bind_def apply_sockopt_None_nf)
  moreover have "erase_governed key (?s [(key, v)]) = erase_governed key (?s [])"
    unfolding erase_governed_append by (simp only: sockopt_part_erase)
  ultimately show ?thesis by blast
qed

text \<open>
  C4 (amended). For every base configuration that builds, every port and every singleton
  override \<open>{K: V}\<close> with \<open>V\<close> in the domain of \<open>K\<close>, the document of the override
  and the baseline document have the same log, inbound (so the same port), protocol and
  settings, and their \<open>streamSettings\<close> are equal outside the part that \<open>K\<close> governs:
  the fragment block as a whole for a fragment key, the network with the
  transport-specific settings for \<open>transport\<close>, the one field of \<open>K\<close> otherwise.
\<close>

theorem single_override_frame:
  assumes v: "v \<in> set (value_domain key)"
    and base: "build_xray_json config [] port = Inr doc0"
  shows "\<exists>protocol settings stream stream0.
           build_xray_json config [(key, v)] port =
             Inr (document port (outbound protocol settings stream))
         \<and> doc0 = document port (outbound protocol settings stream0)
         \<and> erase_governed key stream = erase_governed key stream0"
proof -
  have key: "key \<in> set param_keys"
    using v by (rule value_domain_key)
  from base obtain p where p: "getitem config ''protocol'' = Inr p"
    by (auto simp: build_xray_json_def bind_def split: sum.splits)
  from base p have "recognized p"
    by (auto simp: build_xray_json_def bind_def recognized_def split: if_splits)
  then consider "p = PStr ''vless''" | "p = PStr ''vmess''" | "p = PStr ''trojan''"
    | "p = PStr ''shadowsocks''"
    by (auto simp: recognized_def)
  then show ?thesis
  proof cases
    case 1
    from base p 1 obtain ob0 where ob0: "build_vless_outbound config [] = Inr ob0"
      and d: "doc0 = document port ob0"
      by (auto simp: build_xray_json_def bind_def split: sum.splits)
    from vless_erase [OF key ob0, of v] obtain settings stream stream0
      where a: "build_vless_outbound config [(key, v)] = Inr (outbound ''vless'' settings stream)"
        and b: "ob0 = outbound ''vless'' settings stream0"
        and c: "erase_governed key stream = erase_governed key stream0"
      by blast
    have "build_xray_json config [(key, v)] port =
            Inr (document port (outbound ''vless'' settings stream))"
      using p 1 a by (simp add: build_xray_json_def bind_def)
    moreover have "doc0 = document port (outbound ''vless'' settings stream0)"
      using d b by simp
    ultimately show ?thesis using c by blast
  next
    case 2
    from base p 2 obtain ob0 where ob0: "build_vmess_outbound config [] = Inr ob0"
      and d: "doc0 = document port ob0"
      by (auto simp: build_xray_json_def bind_def split: sum.splits)
    from vmess_erase [OF key ob0, of v] obtain settings stream stream0
      where a: "build_vmess_outbound config [(key, v)] = Inr (outbound ''vmess'' settings stream)"
        and b: "ob0 = outbound ''vmess'' settings stream0"
        and c: "erase_governed key stream = erase_governed key stream0"
      by blast
    have "build_xray_json config [(key, v)] port =
            Inr (document port (outbound ''vmess'' settings stream))"
      using p 2 a by (simp add: build_xray_json_def bind_def)
    moreover have "doc0 = document port (outbound ''vmess'' settings stream0)"
      using d b by simp
    ultimately show ?thesis using c by blast
  next
    case 3
    from base p 3 obtain ob0 where ob0: "build_trojan_outbound config [] = Inr ob0"
      and d: "doc0 = document port ob0"
      by (auto simp: build_xray_json_def bind_def split: sum.splits)
    from trojan_erase [OF key ob0, of v] obtain settings stream stream0
      where a: "build_trojan_outbound config [(key, v)] = Inr (outbound ''trojan'' settings stream)"
        and b: "ob0 = outbound ''trojan'' settings stream0"
        and c: "erase_governed key stream = erase_governed key stream0"
      by blast
    have "build_xray_json config [(key, v)] port =
            Inr (document port (outbound ''trojan'' settings stream))"
      using p 3 a by (simp add: build_xray_json_def bind_def)
    moreover have "doc0 = document port (outbound ''trojan'' settings stream0)"
      using d b by simp
    ultimately show ?thesis using c by blast
  next
    case 4
    from base p 4 obtain ob0 where ob0: "build_shadowsocks_outbound config [] = Inr ob0"
      and d: "doc0 = document port ob0"
      by (auto simp: build_xray_json_def bind_def split: sum.splits)
    from shadowsocks_erase [OF key ob0, of v] obtain settings stream stream0
      where a: "build_shadowsocks_outbound config [(key, v)] = Inr (outbound ''shadowsocks'' settings stream)"
        and b: "ob0 = outbound ''shadowsocks'' settings stream0"
        and c: "erase_governed key stream = erase_governed key stream0"
      by blast
    have "build_xray_json config [(key, v)] port =
            Inr (document port (outbound ''shadowsocks'' settings stream))"
      using p 4 a by (simp add: build_xray_json_def bind_def)
    moreover have "doc0 = document port (outbound ''shadowsocks'' settings stream0)"
      using d b by simp
    ultimately show ?thesis using c by blast
  qed
qed

theorem single_override_frame_witness:
  "PStr ''10-20'' \<in> set (value_domain ''fragment_length'')
   \<and> (\<exists>protocol settings stream stream0.
         build_xray_json example_vless [(''fragment_length'', PStr ''10-20'')] 10808 =
           Inr (document 10808 (outbound protocol settings stream))
       \<and> build_xray_json example_vless [] 10808 =
           Inr (document 10808 (outbound protocol settings stream0))
       \<and> erase_governed ''fragment_length'' stream =
           erase_governed ''fragment_length'' stream0)"
proof -
  have v: "PStr ''10-20'' \<in> set (value_domain ''fragment_length'')"
    by (simp add: value_domain_def PARAM_SPACE_def)
  obtain doc0 where b: "build_xray_json example_vless [] 10808 = Inr doc0"
    by (simp add: example_vless_def eval_defs)
  from single_override_frame [OF v b] v b show ?thesis
    by simp
qed

subsection \<open>Fragment values of the base configuration\<close>


subsection \<open>Batches\<close>



lemma batch_inv_start:
  "0 \<le> c \<Longrightarrow> start_batch tests c pc = Inr s0 \<Longrightarrow> batch_inv tests ms (nat c) pc [] s0"
  by (auto simp: start_batch_def batch_inv_def)





lemma exec_append:
  "exec tests ms (xs @ ys) s =
     (case exec tests ms xs s of None \<Rightarrow> None | Some s1 \<Rightarrow> exec tests ms ys s1)"
  by (induction xs arbitrary: s) (auto split: option.splits)








text \<open>One run of the two tasks with limit 1: the crash of the second probe is a result.\<close>

lemma run_batch_example:
  "run_batch example_tasks 1 False [Acquire 0, Finish 0, Acquire 1, Finish 1] 0 =
     Some (Inr ([\<lparr>params = [], description = ''baseline (no changes)'', success = True,
                   latency_ms = 50, speed_mbps = - 1, error = []\<rparr>,
                 \<lparr>params = [], description = ''baseline (no changes)'', success = False,
                   latency_ms = - 1, speed_mbps = - 1,
                   error = ''xray exited with code 1''\<rparr>], 2))"
  by (simp add: run_batch_def start_batch_def example_tasks_def finished_def next_port_def
        probe_def example_doc_def example_shadowsocks_def stamp_def env_ok_def env_crash_def
        close_session_def speed_test_def py_int_def str_int_def str_nat.simps
        build_xray_json_def build_shadowsocks_outbound_def apply_sockopt_def build_sockopt_def
        tcp_option_def fragment_option_def getd_def get_def contains_def getitem_def bind_def
        outbound_def document_def inbound_def Let_def)

subsection \<open>Port allocation\<close>

lemma alloc_ports_from:
  "alloc_ports n c = (map (\<lambda>k. BASE_PORT + (c + int k) mod 10000) [0..<n], c + int n)"
proof (induction n arbitrary: c)
  case 0
  show ?case by simp
next
  case (Suc n)
  have shift: "map (\<lambda>k. BASE_PORT + (c + 1 + int k) mod 10000) [0..<n] =
               map (\<lambda>k. BASE_PORT + (c + int k) mod 10000) [Suc 0..<Suc n]"
    by (simp add: map_Suc_upt [symmetric] ac_simps del: upt_Suc)
  have "alloc_ports (Suc n) c =
        ((BASE_PORT + c mod 10000) # map (\<lambda>k. BASE_PORT + (c + 1 + int k) mod 10000) [0..<n],
         c + 1 + int n)"
    by (simp add: next_port_def Suc.IH)
  also have "\<dots> = (map (\<lambda>k. BASE_PORT + (c + int k) mod 10000) [0..<Suc n], c + int (Suc n))"
    by (simp only: shift upt_conv_Cons [of 0 "Suc n"]) (simp add: upt_conv_Cons)
  finally show ?case .
qed

text \<open>
  C9. From a fresh counter, 15 sequential allocations return the ports
  \<open>B, B+1, ..., B+14\<close> in that order, without a repeat; in general the allocation made
  after \<open>k\<close> earlier ones returns \<open>B + (k mod 10000)\<close>, and the counter has then counted
  every allocation.
\<close>

theorem next_port_sequence:
  "fst (alloc_ports 15 0) = map (\<lambda>i. BASE_PORT + i) [0..14]
   \<and> distinct (fst (alloc_ports 15 0))
   \<and> alloc_ports n 0 = (map (\<lambda>k. BASE_PORT + int k mod 10000) [0..<n], int n)
   \<and> fst (next_port (snd (alloc_ports k 0))) = BASE_PORT + int k mod 10000"
proof -
  have gen: "alloc_ports m 0 = (map (\<lambda>k. BASE_PORT + int k mod 10000) [0..<m], int m)" for m
    by (simp add: alloc_ports_from)
  have fifteen: "fst (alloc_ports 15 0) = map (\<lambda>i. BASE_PORT + i) [0..14]"
    by (simp add: gen upt_conv_Cons upto_rec1 numeral_eq_Suc)
  have "distinct (map (\<lambda>i. BASE_PORT + i) [0..14])"
    by (simp add: distinct_map inj_on_def)
  with fifteen gen show ?thesis
    by (simp add: next_port_def)
qed

end
